theory Spec2Isabelle
  imports Complex_Main "HOL-Library.Word" "HOL-Library.AList"
begin

section \<open>JavaScript strings and values\<close>

text \<open>
  A JavaScript string is a sequence of 16-bit code units. The literals of the source are
  ASCII and are written \<open>js ''...''\<close>; the labels of the language table, which are not,
  are given by their code units.
\<close>

type_synonym jsstring = "16 word list"

definition js :: "string \<Rightarrow> jsstring" where
  "js s = map of_char s"

text \<open>
  \<open>String.prototype.trim\<close> removes the code units that ECMAScript calls WhiteSpace or
  LineTerminator from both ends: TAB, LF, VT, FF, CR, SP, NBSP, U+1680, U+2000 to U+200A,
  U+2028, U+2029, U+202F, U+205F, U+3000 and the byte order mark U+FEFF.
\<close>

definition is_white_space :: "16 word \<Rightarrow> bool" where
  "is_white_space c \<longleftrightarrow>
     c \<in> set [0x9, 0xA, 0xB, 0xC, 0xD, 0x20, 0xA0, 0x1680, 0x2028, 0x2029, 0x202F,
              0x205F, 0x3000, 0xFEFF]
     \<or> (0x2000 \<le> c \<and> c \<le> 0x200A)"

definition trim :: "jsstring \<Rightarrow> jsstring" where
  "trim s = rev (dropWhile is_white_space (rev (dropWhile is_white_space s)))"

text \<open>
  The values the scripts handle: what \<open>JSON.parse\<close> and \<open>Response.json\<close> produce, the
  value \<open>undefined\<close> of a missing property, and \<open>Native\<close> for a built-in function or
  object that a property lookup reaches through the prototype chain. A plain object is
  the list of its own properties in insertion order. A \<open>Number\<close> carries the exact value
  of the literal it was read from, or 0 when the literal rounds to zero as a double; the
  scripts observe of a number only whether it is zero.
\<close>

datatype jsval =
    Undefined
  | Null
  | Boolean bool
  | Number rat
  | Str jsstring
  | Arr "jsval list"
  | Obj "(jsstring \<times> jsval) list"
  | Native

text \<open>The conversion to boolean of \<open>x ? a : b\<close>, \<open>!x\<close>, \<open>x || y\<close> and \<open>filter(Boolean)\<close>.\<close>

fun truthy :: "jsval \<Rightarrow> bool" where
  "truthy Undefined = False"
| "truthy Null = False"
| "truthy (Boolean b) = b"
| "truthy (Number q) = (q \<noteq> 0)"
| "truthy (Str s) = (s \<noteq> [])"
| "truthy (Arr vs) = True"
| "truthy (Obj ps) = True"
| "truthy Native = True"

text \<open>
  The properties every plain object inherits from \<open>Object.prototype\<close> as the browser
  sets it up (ECMAScript, sections 20.1.3 and B.2.2). Each of them reads as a function or
  an object, hence as a truthy value.
\<close>

definition Object_prototype :: "jsstring list" where
  "Object_prototype =
     [js ''constructor'', js ''hasOwnProperty'', js ''isPrototypeOf'',
      js ''propertyIsEnumerable'', js ''toLocaleString'', js ''toString'', js ''valueOf'',
      js ''__proto__'', js ''__defineGetter__'', js ''__defineSetter__'',
      js ''__lookupGetter__'', js ''__lookupSetter__'']"

text \<open>
  \<open>o[k]\<close> on a plain object: the own property when there is one, the inherited one
  otherwise, \<open>undefined\<close> when there is neither.
\<close>

definition obj_get :: "(jsstring \<times> jsval) list \<Rightarrow> jsstring \<Rightarrow> jsval" where
  "obj_get ps k =
     (case map_of ps k of
        Some v \<Rightarrow> v
      | None \<Rightarrow> if k \<in> set Object_prototype then Native else Undefined)"

text \<open>
  \<open>o[k] = v\<close> on a plain object, for a key that is an own property or is not inherited:
  the own property is updated in place or appended. The scripts assign only to keys
  whose lookup was falsy, and an inherited key reads truthy.
\<close>

definition obj_set :: "(jsstring \<times> jsval) list \<Rightarrow> jsstring \<Rightarrow> jsval \<Rightarrow> (jsstring \<times> jsval) list" where
  "obj_set ps k v = AList.update k v ps"

section \<open>JSON.parse\<close>

text \<open>
  \<open>loadCache\<close> reads the stored cache with the built-in \<open>JSON.parse\<close>. It is modelled
  after the JSON grammar (ECMA-404): a lexer for the tokens, then a pushdown automaton
  that consumes one token per step. A repeated key of an object keeps its first position
  and takes the last value, as in JavaScript; \<open>__proto__\<close> is an own property like any
  other. A syntax error is the value \<open>Inl SyntaxError\<close>.
\<close>

datatype token =
    LBrace | RBrace | LBracket | RBracket | Colon | Comma
  | TString jsstring | TNumber rat | TTrue | TFalse | TNull

definition is_json_ws :: "16 word \<Rightarrow> bool" where
  "is_json_ws c \<longleftrightarrow> c = 0x20 \<or> c = 0x9 \<or> c = 0xA \<or> c = 0xD"

definition is_digit :: "16 word \<Rightarrow> bool" where
  "is_digit c \<longleftrightarrow> 0x30 \<le> c \<and> c \<le> 0x39"

definition hex_digit :: "16 word \<Rightarrow> nat option" where
  "hex_digit c =
     (if 0x30 \<le> c \<and> c \<le> 0x39 then Some (unat c - 0x30)
      else if 0x41 \<le> c \<and> c \<le> 0x46 then Some (unat c - 0x41 + 10)
      else if 0x61 \<le> c \<and> c \<le> 0x66 then Some (unat c - 0x61 + 10)
      else None)"

fun hex_value :: "nat \<Rightarrow> jsstring \<Rightarrow> nat option" where
  "hex_value acc [] = Some acc"
| "hex_value acc (c # cs) =
     (case hex_digit c of None \<Rightarrow> None | Some d \<Rightarrow> hex_value (16 * acc + d) cs)"

definition escape :: "16 word \<Rightarrow> 16 word option" where
  "escape e =
     (if e = 0x22 then Some 0x22
      else if e = 0x5C then Some 0x5C
      else if e = 0x2F then Some 0x2F
      else if e = 0x62 then Some 0x8
      else if e = 0x66 then Some 0xC
      else if e = 0x6E then Some 0xA
      else if e = 0x72 then Some 0xD
      else if e = 0x74 then Some 0x9
      else None)"

fun lex_string :: "jsstring \<Rightarrow> jsstring \<Rightarrow> (jsstring \<times> jsstring) option" where
  "lex_string acc [] = None"
| "lex_string acc [c] = (if c = 0x22 then Some (acc, []) else None)"
| "lex_string acc (c # e # es) =
     (if c = 0x22 then Some (acc, e # es)
      else if c = 0x5C then
        (if e = 0x75 then
           (if length es < 4 then None
            else case hex_value 0 (take 4 es) of
                   None \<Rightarrow> None
                 | Some u \<Rightarrow> lex_string (acc @ [of_nat u]) (drop 4 es))
         else case escape e of
                None \<Rightarrow> None
              | Some x \<Rightarrow> lex_string (acc @ [x]) es)
      else if c < 0x20 then None
      else lex_string (acc @ [c]) (e # es))"

fun digits_value :: "nat \<Rightarrow> jsstring \<Rightarrow> nat" where
  "digits_value acc [] = acc"
| "digits_value acc (c # cs) = digits_value (10 * acc + (unat c - 0x30)) cs"

definition parse_exponent :: "jsstring \<Rightarrow> int option" where
  "parse_exponent s =
     (case s of
        [] \<Rightarrow> Some 0
      | c # cs \<Rightarrow>
          if c = 0x65 \<or> c = 0x45 then
            (let neg = (cs \<noteq> [] \<and> hd cs = 0x2D);
                 ds = (if cs \<noteq> [] \<and> (hd cs = 0x2D \<or> hd cs = 0x2B) then tl cs else cs)
             in if ds = [] \<or> \<not> list_all is_digit ds then None
                else Some (if neg then - int (digits_value 0 ds) else int (digits_value 0 ds)))
          else None)"

definition parse_number :: "jsstring \<Rightarrow> rat option" where
  "parse_number s =
     (let neg = (s \<noteq> [] \<and> hd s = 0x2D);
          s1 = (if neg then tl s else s);
          ip = takeWhile is_digit s1;
          s2 = dropWhile is_digit s1;
          has_frac = (s2 \<noteq> [] \<and> hd s2 = 0x2E);
          fp = (if has_frac then takeWhile is_digit (tl s2) else []);
          s3 = (if has_frac then dropWhile is_digit (tl s2) else s2)
      in if ip = [] \<or> (hd ip = 0x30 \<and> length ip > 1) \<or> (has_frac \<and> fp = []) then None
         else case parse_exponent s3 of
                None \<Rightarrow> None
              | Some e \<Rightarrow>
                  (let m = of_nat (digits_value 0 (ip @ fp)) / 10 ^ length fp;
                       q = (if 0 \<le> e then m * 10 ^ nat e else m / 10 ^ nat (- e))
                   in Some (if q \<le> 1 / 2 ^ 1075 then 0 else if neg then - q else q)))"

definition is_number_char :: "16 word \<Rightarrow> bool" where
  "is_number_char c \<longleftrightarrow> is_digit c \<or> c \<in> set [0x2D, 0x2B, 0x2E, 0x65, 0x45]"

definition is_lower :: "16 word \<Rightarrow> bool" where
  "is_lower c \<longleftrightarrow> 0x61 \<le> c \<and> c \<le> 0x7A"

definition literal :: "jsstring \<Rightarrow> token option" where
  "literal w =
     (if w = js ''true'' then Some TTrue
      else if w = js ''false'' then Some TFalse
      else if w = js ''null'' then Some TNull
      else None)"

definition punctuation :: "16 word \<Rightarrow> token option" where
  "punctuation c =
     (if c = 0x7B then Some LBrace
      else if c = 0x7D then Some RBrace
      else if c = 0x5B then Some LBracket
      else if c = 0x5D then Some RBracket
      else if c = 0x3A then Some Colon
      else if c = 0x2C then Some Comma
      else None)"

definition cons_token :: "token option \<Rightarrow> token list option \<Rightarrow> token list option" where
  "cons_token t ts = (case t of None \<Rightarrow> None | Some x \<Rightarrow> map_option ((#) x) ts)"

function lex :: "jsstring \<Rightarrow> token list option" where
  "lex [] = Some []"
| "lex (c # cs) =
     (if is_json_ws c then lex cs
      else if punctuation c \<noteq> None then cons_token (punctuation c) (lex cs)
      else if c = 0x22 then
        (case lex_string [] cs of
           None \<Rightarrow> None
         | Some (s, rest) \<Rightarrow> cons_token (Some (TString s)) (lex rest))
      else if is_digit c \<or> c = 0x2D then
        cons_token (map_option TNumber (parse_number (c # takeWhile is_number_char cs)))
          (lex (dropWhile is_number_char cs))
      else if is_lower c then
        cons_token (literal (c # takeWhile is_lower cs)) (lex (dropWhile is_lower cs))
      else None)"
  by pat_completeness auto
termination
proof (relation "measure length")
  show "wf (measure length)" by simp
next
  fix c cs x2 x y
  assume a: "lex_string [] cs = Some x2" "(x, y) = x2"
  have shorter: "lex_string acc s = Some (r, rest) \<Longrightarrow> length rest < length s"
    for acc s r rest
    by (induction acc s rule: lex_string.induct) (auto split: if_splits option.splits)
  from a have "length y < length cs" using shorter[of "[]" cs x y] by simp
  then show "(y, c # cs) \<in> measure length" by simp
qed (auto simp: less_Suc_eq_le length_dropWhile_le)

datatype frame = FArr "jsval list" | FObj "(jsstring \<times> jsval) list" jsstring

datatype pstate =
    PValue "frame list"
  | PArrFirst "frame list"
  | PObjFirst "frame list"
  | PKey "(jsstring \<times> jsval) list" "frame list"
  | PColon "(jsstring \<times> jsval) list" jsstring "frame list"
  | PAfter jsval "frame list"

fun start_value :: "frame list \<Rightarrow> token \<Rightarrow> pstate option" where
  "start_value st (TString s) = Some (PAfter (Str s) st)"
| "start_value st (TNumber q) = Some (PAfter (Number q) st)"
| "start_value st TTrue = Some (PAfter (Boolean True) st)"
| "start_value st TFalse = Some (PAfter (Boolean False) st)"
| "start_value st TNull = Some (PAfter Null st)"
| "start_value st LBracket = Some (PArrFirst st)"
| "start_value st LBrace = Some (PObjFirst st)"
| "start_value st _ = None"

fun step :: "pstate \<Rightarrow> token \<Rightarrow> pstate option" where
  "step (PValue st) t = start_value st t"
| "step (PArrFirst st) t =
     (if t = RBracket then Some (PAfter (Arr []) st) else start_value (FArr [] # st) t)"
| "step (PObjFirst st) t =
     (case t of RBrace \<Rightarrow> Some (PAfter (Obj []) st)
      | TString k \<Rightarrow> Some (PColon [] k st)
      | _ \<Rightarrow> None)"
| "step (PKey ps st) t = (case t of TString k \<Rightarrow> Some (PColon ps k st) | _ \<Rightarrow> None)"
| "step (PColon ps k st) t = (if t = Colon then Some (PValue (FObj ps k # st)) else None)"
| "step (PAfter v []) t = None"
| "step (PAfter v (FArr vs # st)) t =
     (if t = Comma then Some (PValue (FArr (vs @ [v]) # st))
      else if t = RBracket then Some (PAfter (Arr (vs @ [v])) st)
      else None)"
| "step (PAfter v (FObj ps k # st)) t =
     (if t = Comma then Some (PKey (obj_set ps k v) st)
      else if t = RBrace then Some (PAfter (Obj (obj_set ps k v)) st)
      else None)"

fun run :: "pstate \<Rightarrow> token list \<Rightarrow> jsval option" where
  "run s [] = (case s of PAfter v [] \<Rightarrow> Some v | _ \<Rightarrow> None)"
| "run s (t # ts) = (case step s t of None \<Rightarrow> None | Some s' \<Rightarrow> run s' ts)"

datatype syntax_error = SyntaxError

definition JSON_parse :: "jsstring \<Rightarrow> syntax_error + jsval" where
  "JSON_parse s =
     (case lex s of
        None \<Rightarrow> Inl SyntaxError
      | Some ts \<Rightarrow> (case run (PValue []) ts of None \<Rightarrow> Inl SyntaxError | Some v \<Rightarrow> Inr v))"

section \<open>language.js: the selected language\<close>

text \<open>The two keys of \<open>localStorage\<close> the script uses; \<open>None\<close> is an unset key.\<close>

record storage =
  acd_lang :: "jsstring option"
  acd_lang_cache_v1 :: "jsstring option"

definition LANGS :: "(jsstring \<times> jsval) list" where
  "LANGS =
     [(js ''en'', Str (js ''English'')),
      (js ''hi'', Str (js ''Hindi ('' @ [0x939, 0x93F, 0x928, 0x94D, 0x926, 0x940] @ js '')'')),
      (js ''te'', Str (js ''Telugu ('' @ [0xC24, 0xC46, 0xC32, 0xC41, 0xC17, 0xC41] @ js '')'')),
      (js ''ta'', Str (js ''Tamil ('' @ [0xBA4, 0xBAE, 0xBBF, 0xBB4, 0xBCD] @ js '')'')),
      (js ''kn'', Str (js ''Kannada ('' @ [0xC95, 0xCA8, 0xCCD, 0xCA8, 0xCA1] @ js '')'')),
      (js ''ml'', Str (js ''Malayalam ('' @ [0xD2E, 0xD32, 0xD2F, 0xD3E, 0xD33, 0xD02] @ js '')'')),
      (js ''pa'', Str (js ''Punjabi ('' @ [0xA2A, 0xA70, 0xA1C, 0xA3E, 0xA2C, 0xA40] @ js '')'')),
      (js ''bho'', Str (js ''Bhojpuri ('' @ [0x92D, 0x94B, 0x91C, 0x92A, 0x941, 0x930, 0x940] @ js '')''))]"

text \<open>The language codes: the own keys of \<open>LANGS\<close>.\<close>

definition supported :: "jsstring list" where
  "supported = map fst LANGS"

text \<open>\<open>x || 'en'\<close> for a string or \<open>null\<close>.\<close>

definition or_en :: "jsstring option \<Rightarrow> jsstring" where
  "or_en x = (case x of None \<Rightarrow> js ''en'' | Some s \<Rightarrow> if s = [] then js ''en'' else s)"

definition getLang :: "storage \<Rightarrow> jsstring" where
  "getLang ls =
     (let v = trim (or_en (acd_lang ls))
      in if truthy (obj_get LANGS v) then v else js ''en'')"

text \<open>\<open>if (!LANGS[lang]) lang = 'en'\<close>, the first line of \<open>setLang\<close> and of \<open>applyLanguage\<close>.\<close>

definition normalize_lang :: "jsstring \<Rightarrow> jsstring" where
  "normalize_lang lang = (if \<not> truthy (obj_get LANGS lang) then js ''en'' else lang)"

definition setLang :: "jsstring \<Rightarrow> storage \<Rightarrow> storage" where
  "setLang lang ls = ls\<lparr>acd_lang := Some (normalize_lang lang)\<rparr>"

section \<open>language.js: the translation cache\<close>

text \<open>\<open>x || '{}'\<close> for a string or \<open>null\<close>.\<close>

definition or_braces :: "jsstring option \<Rightarrow> jsstring" where
  "or_braces x = (case x of None \<Rightarrow> js ''{}'' | Some s \<Rightarrow> if s = [] then js ''{}'' else s)"

text \<open>The \<open>catch\<close> of \<open>loadCache\<close> turns the syntax error into the empty object.\<close>

definition loadCache :: "storage \<Rightarrow> jsval" where
  "loadCache ls =
     (case JSON_parse (or_braces (acd_lang_cache_v1 ls)) of
        Inl e \<Rightarrow> Obj []
      | Inr v \<Rightarrow> v)"

text \<open>What JavaScript calls an object among the values \<open>JSON.parse\<close> returns.\<close>

fun is_object :: "jsval \<Rightarrow> bool" where
  "is_object (Obj ps) = True"
| "is_object (Arr vs) = True"
| "is_object v = False"

text \<open>
  Lines 132 and 133, \<open>cache = loadCache(); cache[lang] = cache[lang] || {}\<close>. The result
  is the pair of the own properties of \<open>cache\<close> and of \<open>cache[lang]\<close>. Reading a property
  of \<open>null\<close> throws a TypeError. Where \<open>cache\<close> or a truthy \<open>cache[lang]\<close> is not a plain
  object (a string, a number, \<open>true\<close>, an array, or the built-in that a language such
  as \<open>constructor\<close> reaches through the prototype chain), what follows depends on the
  built-in prototypes of the browser; the model stops there with \<open>Unmodelled\<close>.
\<close>

datatype error = TypeError | Unmodelled

definition language_cache ::
  "jsstring \<Rightarrow> jsval \<Rightarrow> error + ((jsstring \<times> jsval) list \<times> (jsstring \<times> jsval) list)" where
  "language_cache lang cache =
     (case cache of
        Null \<Rightarrow> Inl TypeError
      | Undefined \<Rightarrow> Inl TypeError
      | Obj ps \<Rightarrow>
          (if truthy (obj_get ps lang)
           then (case obj_get ps lang of Obj c \<Rightarrow> Inr (ps, c) | _ \<Rightarrow> Inl Unmodelled)
           else Inr (obj_set ps lang (Obj []), []))
      | _ \<Rightarrow> Inl Unmodelled)"

section \<open>language.js: the page\<close>

text \<open>
  The page as \<open>applyLanguage\<close> sees it under \<open>document.body\<close>: the text nodes that the
  TreeWalker yields, in document order, and the elements that
  \<open>querySelectorAll('input, textarea, button, a')\<close> yields, in document order. A node is
  identified by its position in the list; \<open>applyLanguage\<close> creates and removes no node.
  The two WeakMaps are keyed by node, so the entry of a node is kept with the node:
  \<open>originalText\<close> is the entry of \<open>originalTextByNode\<close> and \<open>originalAttrs\<close> the entry
  of \<open>originalAttrsByEl\<close>, \<open>None\<close> where \<open>has\<close> is false.

  \<open>in_no_translate\<close> is whether \<open>closest('[data-no-translate="true"]')\<close> finds an
  element, from the parent of a text node and from an element itself.
\<close>

record text_node =
  nodeValue :: jsstring
  parentElement :: bool
  in_no_translate :: bool
  tagName :: jsstring
  originalText :: "jsstring option"

datatype attr = Placeholder | Title | AriaLabel

record element =
  el_in_no_translate :: bool
  attributes :: "attr \<Rightarrow> jsstring option"
  originalAttrs :: "(attr \<Rightarrow> jsstring option) option"

record page =
  body :: bool
  text_nodes :: "text_node list"
  elements :: "element list"

definition isTranslatableTextNode :: "text_node \<Rightarrow> bool" where
  "isTranslatableTextNode node \<longleftrightarrow>
     nodeValue node \<noteq> [] \<and> trim (nodeValue node) \<noteq> [] \<and> parentElement node
     \<and> \<not> in_no_translate node \<and> tagName node \<noteq> []
     \<and> tagName node \<notin> set [js ''SCRIPT'', js ''STYLE'', js ''NOSCRIPT'']"

definition collectTextNodes :: "text_node list \<Rightarrow> nat list" where
  "collectTextNodes ns = filter (\<lambda>i. isTranslatableTextNode (ns ! i)) [0..<length ns]"

text \<open>The items \<open>{el, attr, val}\<close> of one element, then of all of them.\<close>

definition element_items :: "nat \<Rightarrow> element \<Rightarrow> (nat \<times> attr \<times> jsstring) list" where
  "element_items i el =
     (if el_in_no_translate el then []
      else concat (map (\<lambda>a. case attributes el a of
                              None \<Rightarrow> []
                            | Some val \<Rightarrow> if val \<noteq> [] \<and> trim val \<noteq> [] then [(i, a, trim val)] else [])
                     [Placeholder, Title, AriaLabel]))"

definition collectTranslatableAttributes :: "element list \<Rightarrow> (nat \<times> attr \<times> jsstring) list" where
  "collectTranslatableAttributes els = concat (map (\<lambda>i. element_items i (els ! i)) [0..<length els])"

subsection \<open>The branch for English: restoring\<close>

definition restore_node :: "text_node \<Rightarrow> text_node" where
  "restore_node node =
     (case originalText node of Some orig \<Rightarrow> node\<lparr>nodeValue := orig\<rparr> | None \<Rightarrow> node)"

definition restore_nodes :: "text_node list \<Rightarrow> text_node list" where
  "restore_nodes ns = fold (\<lambda>i ns. ns[i := restore_node (ns ! i)]) (collectTextNodes ns) ns"

definition restore_attr :: "attr \<Rightarrow> element \<Rightarrow> element" where
  "restore_attr a el =
     (case originalAttrs el of
        None \<Rightarrow> el
      | Some origAttrs \<Rightarrow>
          (case origAttrs a of
             Some s \<Rightarrow> el\<lparr>attributes := (attributes el)(a \<mapsto> s)\<rparr>
           | None \<Rightarrow> el))"

definition restore_attrs :: "element list \<Rightarrow> element list" where
  "restore_attrs els =
     fold (\<lambda>(i, a, val) els. els[i := restore_attr a (els ! i)])
       (collectTranslatableAttributes els) els"

subsection \<open>Keeping the originals\<close>

definition capture_node :: "text_node \<Rightarrow> text_node" where
  "capture_node node =
     (if originalText node = None then node\<lparr>originalText := Some (nodeValue node)\<rparr> else node)"

definition capture_nodes :: "nat list \<Rightarrow> text_node list \<Rightarrow> text_node list" where
  "capture_nodes nodes ns = fold (\<lambda>i ns. ns[i := capture_node (ns ! i)]) nodes ns"

definition capture_attr :: "attr \<Rightarrow> jsstring \<Rightarrow> element \<Rightarrow> element" where
  "capture_attr a val el =
     (let origAttrs = (case originalAttrs el of None \<Rightarrow> Map.empty | Some oa \<Rightarrow> oa)
      in el\<lparr>originalAttrs :=
              Some (if origAttrs a = None then origAttrs(a \<mapsto> val) else origAttrs)\<rparr>)"

definition capture_attrs :: "(nat \<times> attr \<times> jsstring) list \<Rightarrow> element list \<Rightarrow> element list" where
  "capture_attrs items els = fold (\<lambda>(i, a, val) els. els[i := capture_attr a val (els ! i)]) items els"

subsection \<open>The strings to translate\<close>

text \<open>\<open>Array.from(new Set(xs))\<close>: the first occurrence of each element, in order.\<close>

definition Set_from :: "'a list \<Rightarrow> 'a list" where
  "Set_from xs = fold (\<lambda>x acc. if x \<in> set acc then acc else acc @ [x]) xs []"

definition nodeTexts :: "page \<Rightarrow> jsstring list" where
  "nodeTexts p = map (\<lambda>i. trim (nodeValue (text_nodes p ! i))) (collectTextNodes (text_nodes p))"

definition attrTexts :: "page \<Rightarrow> jsstring list" where
  "attrTexts p = map (\<lambda>(i, a, val). val) (collectTranslatableAttributes (elements p))"

definition uniqueTexts :: "page \<Rightarrow> jsstring list" where
  "uniqueTexts p = Set_from (filter (\<lambda>t. t \<noteq> []) (nodeTexts p @ attrTexts p))"

definition missing :: "(jsstring \<times> jsval) list \<Rightarrow> page \<Rightarrow> jsstring list" where
  "missing c p = filter (\<lambda>t. \<not> truthy (obj_get c t)) (uniqueTexts p)"

subsection \<open>The request to the backend\<close>

text \<open>
  What one \<open>fetch('/translate', ...)\<close> comes to: the promise rejects, or there is a
  response with its \<open>ok\<close> flag and the value \<open>res.json()\<close> gives, \<open>None\<close> when that
  promise rejects. \<open>translateBatch\<close> returns the array \<open>data.translations\<close> or throws;
  no built-in prototype has a property \<open>translations\<close>, so only an own property of a
  plain object can be that array.
\<close>

datatype reply = Fetch_rejected | Response bool "jsval option"

datatype failure = Network_failure | Type_error | Translation_failed | Invalid_translation_response

definition translateBatch :: "reply \<Rightarrow> failure + jsval list" where
  "translateBatch r =
     (case r of
        Fetch_rejected \<Rightarrow> Inl Network_failure
      | Response ok json \<Rightarrow>
          (let data = (case json of None \<Rightarrow> Obj [] | Some d \<Rightarrow> d)
           in if data = Null \<or> data = Undefined then Inl Type_error
              else if \<not> ok then Inl Translation_failed
              else case data of
                     Obj ps \<Rightarrow>
                       (case obj_get ps (js ''translations'') of
                          Arr ts \<Rightarrow> Inr ts
                        | _ \<Rightarrow> Inl Invalid_translation_response)
                   | _ \<Rightarrow> Inl Invalid_translation_response))"

definition CHUNK :: nat where
  "CHUNK = 80"

text \<open>\<open>translated[j] || slice[j]\<close>, with \<open>chunk\<close> for the array \<open>slice\<close>; an index past the end of an array reads \<open>undefined\<close>.\<close>

definition translated_or :: "jsval list \<Rightarrow> jsstring list \<Rightarrow> nat \<Rightarrow> jsval" where
  "translated_or translated chunk j =
     (if j < length translated \<and> truthy (translated ! j) then translated ! j else Str (chunk ! j))"

text \<open>The inner loop, \<open>cache[lang][slice[j]] = translated[j] || slice[j]\<close> for each \<open>j\<close>.\<close>

definition store_chunk ::
  "(jsstring \<times> jsval) list \<Rightarrow> jsstring list \<Rightarrow> jsval list \<Rightarrow> (jsstring \<times> jsval) list" where
  "store_chunk c chunk translated =
     fold (\<lambda>j c. obj_set c (chunk ! j) (translated_or translated chunk j)) [0..<length chunk] c"

text \<open>
  The state of the loop over the chunks: the own properties of \<open>cache\<close> and of
  \<open>cache[lang]\<close>, the bodies \<open>{lang, texts}\<close> of the requests sent so far, and the values
  handed to \<open>saveCache\<close> so far. \<open>saveCache\<close> itself never throws; whether the browser
  keeps what it writes is the browser's matter, and each later call of \<open>applyLanguage\<close>
  is given the storage it finds.
\<close>

record loop_state =
  top :: "(jsstring \<times> jsval) list"
  entry :: "(jsstring \<times> jsval) list"
  sent :: "(jsstring \<times> jsstring list) list"
  saves :: "jsval list"

text \<open>
  The loop of lines 159 to 172. The flag of the result is whether the loop ran to its
  end; it is False when the \<open>catch\<close> returned from \<open>applyLanguage\<close>.
\<close>

function chunk_loop ::
  "(jsstring \<Rightarrow> jsstring list \<Rightarrow> reply) \<Rightarrow> jsstring \<Rightarrow> jsstring list \<Rightarrow> nat \<Rightarrow> loop_state
     \<Rightarrow> loop_state \<times> bool" where
  "chunk_loop server lang mis i st =
     (if i < length mis then
        (let chunk = take CHUNK (drop i mis);
             st1 = st\<lparr>sent := sent st @ [(lang, chunk)]\<rparr>
         in case translateBatch (server lang chunk) of
              Inl e \<Rightarrow> (st1, False)
            | Inr translated \<Rightarrow>
                (let c = store_chunk (entry st1) chunk translated;
                     cache = obj_set (top st1) lang (Obj c)
                 in chunk_loop server lang mis (i + CHUNK)
                      (st1\<lparr>top := cache, entry := c, saves := saves st1 @ [Obj cache]\<rparr>)))
      else (st, True))"
  by pat_completeness auto
termination
  by (relation "measure (\<lambda>(server, lang, mis, i, st). length mis - i)") (auto simp: CHUNK_def)

declare chunk_loop.simps [simp del]

subsection \<open>Writing the translations\<close>

text \<open>
  \<open>v || s\<close> as the string the DOM stores. A truthy \<open>v\<close> that is not a string would be
  converted by the browser; the model does not follow that conversion and gives \<open>None\<close>.
\<close>

definition or_string :: "jsval \<Rightarrow> jsstring \<Rightarrow> jsstring option" where
  "or_string v s = (if truthy v then (case v of Str t \<Rightarrow> Some t | _ \<Rightarrow> None) else Some s)"

text \<open>\<open>originalTextByNode.get(node) || node.nodeValue || ''\<close>\<close>

definition original_or_value :: "text_node \<Rightarrow> jsstring" where
  "original_or_value node =
     (case originalText node of
        Some orig \<Rightarrow> if orig \<noteq> [] then orig else nodeValue node
      | None \<Rightarrow> nodeValue node)"

definition apply_node :: "(jsstring \<times> jsval) list \<Rightarrow> text_node \<Rightarrow> text_node option" where
  "apply_node c node =
     (let orig = original_or_value node; key = trim orig
      in if key = [] then Some node
         else map_option (\<lambda>s. node\<lparr>nodeValue := s\<rparr>) (or_string (obj_get c key) orig))"

fun apply_nodes :: "(jsstring \<times> jsval) list \<Rightarrow> nat list \<Rightarrow> text_node list \<Rightarrow> text_node list option" where
  "apply_nodes c [] ns = Some ns"
| "apply_nodes c (i # nodes) ns =
     (case apply_node c (ns ! i) of
        None \<Rightarrow> None
      | Some node \<Rightarrow> apply_nodes c nodes (ns[i := node]))"

definition apply_attr :: "(jsstring \<times> jsval) list \<Rightarrow> attr \<Rightarrow> jsstring \<Rightarrow> element \<Rightarrow> element option" where
  "apply_attr c a key el =
     map_option (\<lambda>s. el\<lparr>attributes := (attributes el)(a \<mapsto> s)\<rparr>) (or_string (obj_get c key) key)"

fun apply_attrs ::
  "(jsstring \<times> jsval) list \<Rightarrow> (nat \<times> attr \<times> jsstring) list \<Rightarrow> element list \<Rightarrow> element list option" where
  "apply_attrs c [] els = Some els"
| "apply_attrs c ((i, a, val) # items) els =
     (case apply_attr c a val (els ! i) of
        None \<Rightarrow> None
      | Some el \<Rightarrow> apply_attrs c items (els[i := el]))"

subsection \<open>applyLanguage\<close>

text \<open>
  One call of \<open>applyLanguage\<close> is given the storage and the backend it finds, and the
  page. It yields the page it leaves, the requests it sent, the values it handed to
  \<open>saveCache\<close>, and how it ended: it returned, it returned from the \<open>catch\<close> of a failed
  translation, it threw a TypeError, or it left the model (see \<open>language_cache\<close> and
  \<open>or_string\<close>; then the page of the result says nothing about the real page).

  The first statement after the normalisation, which sets the \<open>value\<close> of the
  \<open>.languageSelect\<close> elements, touches no text node and no attribute that is collected.
\<close>

record env =
  localStorage :: storage
  server :: "jsstring \<Rightarrow> jsstring list \<Rightarrow> reply"

datatype status = Returned | Translation_unavailable | Threw_TypeError | Out_of_model

record result =
  page_after :: page
  requests :: "(jsstring \<times> jsstring list) list"
  saved :: "jsval list"
  status :: status

definition applyLanguage :: "jsstring \<Rightarrow> env \<Rightarrow> page \<Rightarrow> result" where
  "applyLanguage lang0 e p =
     (let lang = normalize_lang lang0
      in if \<not> body p then \<lparr>page_after = p, requests = [], saved = [], status = Returned\<rparr>
         else if lang = js ''en'' then
           \<lparr>page_after = p\<lparr>text_nodes := restore_nodes (text_nodes p),
                            elements := restore_attrs (elements p)\<rparr>,
            requests = [], saved = [], status = Returned\<rparr>
         else
           case language_cache lang (loadCache (localStorage e)) of
             Inl TypeError \<Rightarrow> \<lparr>page_after = p, requests = [], saved = [], status = Threw_TypeError\<rparr>
           | Inl Unmodelled \<Rightarrow> \<lparr>page_after = p, requests = [], saved = [], status = Out_of_model\<rparr>
           | Inr (ps, c) \<Rightarrow>
               (let nodes = collectTextNodes (text_nodes p);
                    attrItems = collectTranslatableAttributes (elements p);
                    p1 = p\<lparr>text_nodes := capture_nodes nodes (text_nodes p),
                            elements := capture_attrs attrItems (elements p)\<rparr>;
                    (st, completed) =
                       chunk_loop (server e) lang (missing c p) 0
                         \<lparr>top = ps, entry = c, sent = [], saves = []\<rparr>
                in if \<not> completed then
                     \<lparr>page_after = p1, requests = sent st, saved = saves st,
                      status = Translation_unavailable\<rparr>
                   else
                     case apply_nodes (entry st) nodes (text_nodes p1) of
                       None \<Rightarrow>
                         \<lparr>page_after = p1, requests = sent st, saved = saves st,
                          status = Out_of_model\<rparr>
                     | Some ns \<Rightarrow>
                         (case apply_attrs (entry st) attrItems (elements p1) of
                            None \<Rightarrow>
                              \<lparr>page_after = p1, requests = sent st, saved = saves st,
                               status = Out_of_model\<rparr>
                          | Some els \<Rightarrow>
                              \<lparr>page_after = p1\<lparr>text_nodes := ns, elements := els\<rparr>,
                               requests = sent st, saved = saves st, status = Returned\<rparr>)))"

text \<open>Successive calls, each with the language asked for and what it finds.\<close>

fun apply_languages :: "(jsstring \<times> env) list \<Rightarrow> page \<Rightarrow> page" where
  "apply_languages [] p = p"
| "apply_languages ((lang, e) # calls) p = apply_languages calls (page_after (applyLanguage lang e p))"

section \<open>The emergency form\<close>

text \<open>
  The events a handler causes, in order: what the user and the network see of it.
\<close>

datatype event =
    PreventDefault
  | Alert jsstring
  | Console_log
  | Console_error
  | Fetch_emergency
  | Form_reset

text \<open>
  The submit handler reads \<open>userImage?.files\<close>, \<open>None\<close> when the element or its file
  list is missing, and writes the submit button (its \<open>disabled\<close> flag and its text) and
  the class \<open>hidden\<close> of the success notice, each \<open>None\<close> when the element is missing.
  The size of a file is a number of bytes; \<open>size / 1024 / 1024\<close> is exact in floating
  point, the divisors being powers of two, and is taken over the reals.
\<close>

record selected_file =
  file_size :: nat

record emergency_page =
  emergencySubmitBtn :: "(bool \<times> jsstring) option"
  emergencySuccess_hidden :: "bool option"

text \<open>
  What the \<open>fetch\<close> of the handler comes to: a rejection with the message of its error,
  or a response with its \<open>ok\<close> flag and the field \<open>error\<close> of its JSON body, \<open>None\<close>
  when the body is not JSON or has no such field (the interface is \<open>{error?}\<close>).
\<close>

datatype emergency_reply = Rejected jsstring | Responded bool "jsstring option"

definition fileSizeMB :: "selected_file \<Rightarrow> real" where
  "fileSizeMB f = real (file_size f) / 1024 / 1024"

text \<open>\<open>x || s\<close> for a string or a missing value \<open>x\<close>.\<close>

definition or_text :: "jsstring option \<Rightarrow> jsstring \<Rightarrow> jsstring" where
  "or_text x s = (case x of None \<Rightarrow> s | Some m \<Rightarrow> if m = [] then s else m)"

definition submit_handler ::
  "selected_file list option \<Rightarrow> emergency_reply \<Rightarrow> emergency_page \<Rightarrow> emergency_page \<times> event list" where
  "submit_handler files reply p =
     (if (case files of None \<Rightarrow> False | Some fs \<Rightarrow> length fs > 0 \<and> fileSizeMB (fs ! 0) > 2)
      then (p, [PreventDefault, Alert (js ''Image size must be less than 2 MB'')])
      else
        (let p1 = p\<lparr>emergencySubmitBtn :=
                      map_option (\<lambda>b. (True, js ''Submitting...'')) (emergencySubmitBtn p)\<rparr>;
             (p2, evs) =
               (case reply of
                  Rejected m \<Rightarrow>
                    (p1, [Console_error,
                          Alert (or_text (Some m) (js ''Failed to submit. Please try again.''))])
                | Responded ok err \<Rightarrow>
                    if \<not> ok then
                      (p1, [Console_error,
                            Alert (or_text (Some (or_text err (js ''Failed to submit emergency request'')))
                                     (js ''Failed to submit. Please try again.''))])
                    else
                      (p1\<lparr>emergencySuccess_hidden :=
                            map_option (\<lambda>h. False) (emergencySuccess_hidden p1)\<rparr>,
                       [Form_reset]))
         in (p2\<lparr>emergencySubmitBtn :=
                   map_option (\<lambda>b. (False, js ''Submit'')) (emergencySubmitBtn p2)\<rparr>,
             [PreventDefault, Fetch_emergency] @ evs)))"

section \<open>auth.js: signing in with Google\<close>

text \<open>
  The page of \<open>auth.js\<close>: whether \<open>auth\<close> and \<open>googleProvider\<close> are set, and the four
  elements the script writes, each \<open>None\<close> when \<open>getElementById\<close> finds nothing: the
  class \<open>hidden\<close> of the login frame and of the main content, the source and the class
  \<open>hidden\<close> of the avatar, the text and the class \<open>hidden\<close> of the name display.
\<close>

record auth_page =
  auth :: bool
  googleProvider :: bool
  loginFrame_hidden :: "bool option"
  mainContent_hidden :: "bool option"
  userAvatar :: "(jsstring \<times> bool) option"
  userNameDisplay :: "(jsstring \<times> bool) option"

record user =
  displayName :: "jsstring option"
  photoURL :: "jsstring option"

text \<open>The promise of \<open>signInWithPopup\<close>: fulfilled with a user, or rejected with an error.\<close>

datatype popup = Signed_in user | Popup_rejected jsstring

text \<open>
  \<open>updateUIForSignedInUser\<close>; \<open>Inl\<close> is the page at the moment \<open>displayName.split\<close>
  throws on a missing name.
\<close>

definition updateUIForSignedInUser :: "user \<Rightarrow> auth_page \<Rightarrow> auth_page + auth_page" where
  "updateUIForSignedInUser u p =
     (let p1 = p\<lparr>userAvatar :=
                    map_option (\<lambda>a. (or_text (photoURL u)
                                         (js ''https://cdn-icons-png.flaticon.com/512/847/847969.png''),
                                       False))
                      (userAvatar p)\<rparr>
      in case userNameDisplay p1 of
           None \<Rightarrow> Inr p1
         | Some d \<Rightarrow>
             (case displayName u of
                None \<Rightarrow> Inl p1
              | Some name \<Rightarrow>
                  Inr (p1\<lparr>userNameDisplay :=
                             Some (js ''Hi, '' @ takeWhile (\<lambda>c. c \<noteq> 0x20) name, False)\<rparr>)))"

definition transitionToMainContent :: "auth_page \<Rightarrow> auth_page" where
  "transitionToMainContent p =
     (if loginFrame_hidden p \<noteq> None \<and> mainContent_hidden p \<noteq> None
      then p\<lparr>loginFrame_hidden := Some True, mainContent_hidden := Some False\<rparr>
      else p)"

text \<open>
  \<open>signInWithGoogle\<close>, with the handlers of its promise run. The first argument is the
  message the engine gives the TypeError of a missing \<open>displayName\<close>.
\<close>

definition signInWithGoogle :: "jsstring \<Rightarrow> popup \<Rightarrow> auth_page \<Rightarrow> auth_page \<times> event list" where
  "signInWithGoogle type_error_message outcome p =
     (if \<not> auth p \<or> \<not> googleProvider p
      then (p, [Alert (js ''Login is not available right now (Firebase not configured).'')])
      else case outcome of
             Signed_in u \<Rightarrow>
               (case updateUIForSignedInUser u p of
                  Inr p1 \<Rightarrow> (transitionToMainContent p1, [Console_log])
                | Inl p1 \<Rightarrow>
                    (p1, [Console_log, Console_error,
                          Alert (js ''Login failed: '' @ type_error_message)]))
           | Popup_rejected message \<Rightarrow>
               (p, [Console_error, Alert (js ''Login failed: '' @ message)]))"


section \<open>What a call keeps of the stored originals\<close>

text \<open>
  \<open>node_keeps x y\<close>: the original stored for the text node \<open>x\<close> is still the one stored
  for \<open>y\<close>; \<open>element_keeps\<close> says the same of each attribute of an element, and
  \<open>page_keeps\<close> of each node and element of a page, position by position.
\<close>

definition node_keeps :: "text_node \<Rightarrow> text_node \<Rightarrow> bool" where
  "node_keeps x y \<longleftrightarrow> (\<forall>s. originalText x = Some s \<longrightarrow> originalText y = Some s)"

definition element_keeps :: "element \<Rightarrow> element \<Rightarrow> bool" where
  "element_keeps x y \<longleftrightarrow>
     (\<forall>oa a s. originalAttrs x = Some oa \<and> oa a = Some s \<longrightarrow>
        (\<exists>oa'. originalAttrs y = Some oa' \<and> oa' a = Some s))"

definition page_keeps :: "page \<Rightarrow> page \<Rightarrow> bool" where
  "page_keeps p q \<longleftrightarrow>
     length (text_nodes q) = length (text_nodes p)
     \<and> length (elements q) = length (elements p)
     \<and> (\<forall>k<length (text_nodes p). node_keeps (text_nodes p ! k) (text_nodes q ! k))
     \<and> (\<forall>k<length (elements p). element_keeps (elements p ! k) (elements q ! k))"


section \<open>Example inputs\<close>

text \<open>
  A page with one paragraph and one input field, both padded with spaces; a backend
  that answers every request with one translation for each text; a backend that answers
  with an error status; an empty storage and one that holds a cached translation.
\<close>

definition quoted :: "jsstring \<Rightarrow> jsstring" where
  "quoted s = [0x22] @ s @ [0x22]"

definition example_page :: page where
  "example_page =
     \<lparr>body = True,
      text_nodes = [\<lparr>nodeValue = js '' Hello '', parentElement = True, in_no_translate = False,
                     tagName = js ''P'', originalText = None\<rparr>],
      elements = [\<lparr>el_in_no_translate = False,
                   attributes = [Placeholder \<mapsto> js '' Name ''],
                   originalAttrs = None\<rparr>]\<rparr>"

definition example_backend :: "jsstring \<Rightarrow> jsstring list \<Rightarrow> reply" where
  "example_backend lang texts =
     Response True
       (Some (Obj [(js ''translations'', Arr (map (\<lambda>t. Str (lang @ js '':'' @ t)) texts))]))"

definition failing_backend :: "jsstring \<Rightarrow> jsstring list \<Rightarrow> reply" where
  "failing_backend lang texts = Response False None"

definition empty_storage :: storage where
  "empty_storage = \<lparr>acd_lang = None, acd_lang_cache_v1 = None\<rparr>"

definition cached_storage :: storage where
  "cached_storage =
     \<lparr>acd_lang = Some (js ''hi''),
      acd_lang_cache_v1 =
        Some (js ''{'' @ quoted (js ''hi'') @ js '':{'' @ quoted (js ''Hello'') @ js '':''
              @ quoted (js ''Namaste'') @ js ''}}'')\<rparr>"

definition broken_storage :: storage where
  "broken_storage = \<lparr>acd_lang = None, acd_lang_cache_v1 = Some (js ''{oops'')\<rparr>"

text \<open>The example page once its texts are shown in Hindi by the example backend.\<close>

definition translated_page :: page where
  "translated_page =
     \<lparr>body = True,
      text_nodes = [\<lparr>nodeValue = js ''hi:Hello'', parentElement = True, in_no_translate = False,
                     tagName = js ''P'', originalText = Some (js '' Hello '')\<rparr>],
      elements = [\<lparr>el_in_no_translate = False,
                   attributes = [Placeholder \<mapsto> js ''hi:Name''],
                   originalAttrs = Some [Placeholder \<mapsto> js ''Name'']\<rparr>]\<rparr>"

definition example_auth_page :: auth_page where
  "example_auth_page =
     \<lparr>auth = True, googleProvider = True, loginFrame_hidden = Some False,
      mainContent_hidden = Some True, userAvatar = Some ([], True),
      userNameDisplay = Some ([], True)\<rparr>"

definition example_emergency_page :: emergency_page where
  "example_emergency_page =
     \<lparr>emergencySubmitBtn = Some (False, js ''Submit''), emergencySuccess_hidden = Some True\<rparr>"


section \<open>Properties of language.js\<close>

subsection \<open>Updating a list position by position\<close>

lemma fold_update_related:
  assumes refl: "\<And>x. R x x"
    and trans: "\<And>x y z. R x y \<Longrightarrow> R y z \<Longrightarrow> R x z"
    and step: "\<And>it x. R x (F it x)"
  shows "length (fold (\<lambda>it xs. xs[idx it := F it (xs ! idx it)]) its xs) = length xs
         \<and> (\<forall>k<length xs. R (xs ! k) (fold (\<lambda>it xs. xs[idx it := F it (xs ! idx it)]) its xs ! k))"
proof (induction its arbitrary: xs)
  case Nil
  show ?case by (simp add: refl)
next
  case (Cons it its)
  let ?ys = "xs[idx it := F it (xs ! idx it)]"
  have len: "length ?ys = length xs" by simp
  have first: "R (xs ! k) (?ys ! k)" if "k < length xs" for k
    using that by (cases "k = idx it") (simp_all add: refl step)
  from Cons.IH[of ?ys] len first show ?case
    by (auto intro: trans)
qed

lemma distinct_Set_from_acc:
  "distinct acc \<Longrightarrow> distinct (fold (\<lambda>x acc. if x \<in> set acc then acc else acc @ [x]) xs acc)"
  by (induction xs arbitrary: acc) auto

lemma distinct_Set_from: "distinct (Set_from xs)"
  by (simp add: Set_from_def distinct_Set_from_acc)

lemma set_Set_from_acc:
  "set (fold (\<lambda>x acc. if x \<in> set acc then acc else acc @ [x]) xs acc) = set acc \<union> set xs"
  by (induction xs arbitrary: acc) auto

lemma set_Set_from: "set (Set_from xs) = set xs"
  by (simp add: Set_from_def set_Set_from_acc)

lemma distinct_missing: "distinct (missing c p)"
  by (simp add: missing_def uniqueTexts_def distinct_Set_from)

lemma missing_falsy: "t \<in> set (missing c p) \<Longrightarrow> \<not> truthy (obj_get c t)"
  by (simp add: missing_def)

subsection \<open>The loop over the chunks\<close>

lemma chunk_loop_sent:
  "chunk_loop srv lang mis i st = (st', b) \<Longrightarrow>
     \<exists>n. sent st' = sent st @ map (\<lambda>k. (lang, take CHUNK (drop (i + k * CHUNK) mis))) [0..<n]
        \<and> (\<forall>k<n. i + k * CHUNK < length mis)
        \<and> (b \<longrightarrow> length mis \<le> i + n * CHUNK)"
proof (induction srv lang mis i st arbitrary: st' b rule: chunk_loop.induct)
  case (1 srv lang mis i st)
  show ?case
  proof (cases "i < length mis")
    case False
    with "1.prems" have "st' = st" "b"
      by (simp_all add: chunk_loop.simps)
    with False show ?thesis
      by (intro exI[of _ 0]) simp
  next
    case True
    let ?chunk = "take CHUNK (drop i mis)"
    let ?st1 = "st\<lparr>sent := sent st @ [(lang, ?chunk)]\<rparr>"
    show ?thesis
    proof (cases "translateBatch (srv lang ?chunk)")
      case (Inl e)
      with True "1.prems" have "st' = ?st1" "\<not> b"
        by (simp_all add: chunk_loop.simps Let_def)
      with True show ?thesis
        by (intro exI[of _ 1]) simp
    next
      case (Inr translated)
      let ?c = "store_chunk (entry ?st1) ?chunk translated"
      let ?cache = "obj_set (top ?st1) lang (Obj ?c)"
      let ?st2 = "?st1\<lparr>top := ?cache, entry := ?c, saves := saves ?st1 @ [Obj ?cache]\<rparr>"
      from True Inr "1.prems" have run: "chunk_loop srv lang mis (i + CHUNK) ?st2 = (st', b)"
        by (simp add: chunk_loop.simps[of srv lang mis i st] Let_def)
      from "1.IH"[OF True refl refl Inr refl refl run]
      obtain n where n: "sent st' = sent ?st2 @ map (\<lambda>k. (lang, take CHUNK (drop (i + CHUNK + k * CHUNK) mis))) [0..<n]"
        "\<forall>k<n. i + CHUNK + k * CHUNK < length mis" "b \<longrightarrow> length mis \<le> i + CHUNK + n * CHUNK"
        by blast
      have "sent st' = sent st @ map (\<lambda>k. (lang, take CHUNK (drop (i + k * CHUNK) mis))) [0..<Suc n]"
        using n(1) by (simp add: map_upt_Suc add.assoc del: upt_Suc)
      moreover have "\<forall>k<Suc n. i + k * CHUNK < length mis"
        using n(2) True by (auto simp: less_Suc_eq_0_disj add.assoc)
      moreover have "b \<longrightarrow> length mis \<le> i + Suc n * CHUNK"
        using n(3) by (simp add: add.assoc)
      ultimately show ?thesis by blast
    qed
  qed
qed

lemma chunk_loop_all_translated:
  "chunk_loop srv lang mis i st = (st', True) \<Longrightarrow>
   (\<forall>(l, ts)\<in>set (sent st). \<exists>tr. translateBatch (srv l ts) = Inr tr) \<Longrightarrow>
   (\<forall>(l, ts)\<in>set (sent st'). \<exists>tr. translateBatch (srv l ts) = Inr tr)"
proof (induction srv lang mis i st arbitrary: st' rule: chunk_loop.induct)
  case (1 srv lang mis i st)
  show ?case
  proof (cases "i < length mis")
    case False
    with "1.prems" show ?thesis by (simp add: chunk_loop.simps)
  next
    case True
    let ?chunk = "take CHUNK (drop i mis)"
    let ?st1 = "st\<lparr>sent := sent st @ [(lang, ?chunk)]\<rparr>"
    show ?thesis
    proof (cases "translateBatch (srv lang ?chunk)")
      case (Inl e)
      with True "1.prems"(1) show ?thesis
        by (simp add: chunk_loop.simps Let_def)
    next
      case (Inr translated)
      let ?c = "store_chunk (entry ?st1) ?chunk translated"
      let ?cache = "obj_set (top ?st1) lang (Obj ?c)"
      let ?st2 = "?st1\<lparr>top := ?cache, entry := ?c, saves := saves ?st1 @ [Obj ?cache]\<rparr>"
      from True Inr "1.prems"(1) have run: "chunk_loop srv lang mis (i + CHUNK) ?st2 = (st', True)"
        by (simp add: chunk_loop.simps[of srv lang mis i st] Let_def)
      have "\<forall>(l, ts)\<in>set (sent ?st2). \<exists>tr. translateBatch (srv l ts) = Inr tr"
        using "1.prems"(2) Inr by auto
      from "1.IH"[OF True refl refl Inr refl refl run this] show ?thesis .
    qed
  qed
qed

lemma apply_nodes_related:
  assumes refl: "\<And>x. R x x"
    and trans: "\<And>x y z. R x y \<Longrightarrow> R y z \<Longrightarrow> R x z"
    and step: "\<And>x y. apply_node c x = Some y \<Longrightarrow> R x y"
  shows "apply_nodes c nodes ns = Some ns' \<Longrightarrow>
         length ns' = length ns \<and> (\<forall>k<length ns. R (ns ! k) (ns' ! k))"
proof (induction nodes arbitrary: ns)
  case Nil
  then show ?case by (simp add: refl)
next
  case (Cons i nodes)
  from Cons.prems obtain node where node: "apply_node c (ns ! i) = Some node"
    and rest: "apply_nodes c nodes (ns[i := node]) = Some ns'"
    by (auto split: option.splits)
  have first: "R (ns ! k) (ns[i := node] ! k)" if "k < length ns" for k
    using that step[OF node] by (cases "k = i") (simp_all add: refl)
  from Cons.IH[OF rest] first show ?case
    by (auto intro: trans)
qed

lemma apply_attrs_related:
  assumes refl: "\<And>x. R x x"
    and trans: "\<And>x y z. R x y \<Longrightarrow> R y z \<Longrightarrow> R x z"
    and step: "\<And>a val x y. apply_attr c a val x = Some y \<Longrightarrow> R x y"
  shows "apply_attrs c items els = Some els' \<Longrightarrow>
         length els' = length els \<and> (\<forall>k<length els. R (els ! k) (els' ! k))"
proof (induction items arbitrary: els)
  case Nil
  then show ?case by (simp add: refl)
next
  case (Cons it items)
  obtain i a val where it: "it = (i, a, val)" by (cases it) auto
  from Cons.prems it obtain el where el: "apply_attr c a val (els ! i) = Some el"
    and rest: "apply_attrs c items (els[i := el]) = Some els'"
    by (auto split: option.splits)
  have first: "R (els ! k) (els[i := el] ! k)" if "k < length els" for k
    using that step[OF el] by (cases "k = i") (simp_all add: refl)
  from Cons.IH[OF rest] first show ?case
    by (auto intro: trans)
qed

lemma capture_nodes_related:
  assumes "\<And>x. R x x" "\<And>x y z. R x y \<Longrightarrow> R y z \<Longrightarrow> R x z" "\<And>x. R x (capture_node x)"
  shows "length (capture_nodes nodes ns) = length ns
         \<and> (\<forall>k<length ns. R (ns ! k) (capture_nodes nodes ns ! k))"
  unfolding capture_nodes_def
  using fold_update_related[where R = R and F = "\<lambda>i. capture_node" and idx = "\<lambda>i. i", OF assms]
  by simp

lemma restore_nodes_related:
  assumes "\<And>x. R x x" "\<And>x y z. R x y \<Longrightarrow> R y z \<Longrightarrow> R x z" "\<And>x. R x (restore_node x)"
  shows "length (restore_nodes ns) = length ns
         \<and> (\<forall>k<length ns. R (ns ! k) (restore_nodes ns ! k))"
  unfolding restore_nodes_def
  using fold_update_related[where R = R and F = "\<lambda>i. restore_node" and idx = "\<lambda>i. i", OF assms]
  by simp

lemma capture_attrs_related:
  assumes "\<And>x. R x x" "\<And>x y z. R x y \<Longrightarrow> R y z \<Longrightarrow> R x z" "\<And>a val x. R x (capture_attr a val x)"
  shows "length (capture_attrs items els) = length els
         \<and> (\<forall>k<length els. R (els ! k) (capture_attrs items els ! k))"
  unfolding capture_attrs_def
  using fold_update_related[where R = R and F = "\<lambda>it. capture_attr (fst (snd it)) (snd (snd it))"
      and idx = fst, OF assms(1,2)] assms(3)
  by (simp add: case_prod_unfold)

lemma restore_attrs_related:
  assumes "\<And>x. R x x" "\<And>x y z. R x y \<Longrightarrow> R y z \<Longrightarrow> R x z" "\<And>a x. R x (restore_attr a x)"
  shows "length (restore_attrs els) = length els
         \<and> (\<forall>k<length els. R (els ! k) (restore_attrs els ! k))"
  unfolding restore_attrs_def
  using fold_update_related[where R = R and F = "\<lambda>it. restore_attr (fst (snd it))"
      and idx = fst, OF assms(1,2)] assms(3)
  by (simp add: case_prod_unfold)

lemma capture_keeps_text:
  "map nodeValue (capture_nodes nodes ns) = map nodeValue ns"
  using capture_nodes_related[where R = "\<lambda>x y. nodeValue y = nodeValue x" and nodes = nodes and ns = ns]
  by (auto simp: capture_node_def intro!: nth_equalityI)

lemma capture_keeps_attributes:
  "map attributes (capture_attrs items els) = map attributes els"
  using capture_attrs_related[where R = "\<lambda>x y. attributes y = attributes x" and items = items and els = els]
  by (auto simp: capture_attr_def Let_def intro!: nth_equalityI)

text \<open>What a call sends, in terms of the loop.\<close>

lemma applyLanguage_loop:
  assumes "body p" and "normalize_lang lang \<noteq> js ''en''"
    and "language_cache (normalize_lang lang) (loadCache (localStorage e)) = Inr (ps, c)"
    and "chunk_loop (server e) (normalize_lang lang) (missing c p) 0
           \<lparr>top = ps, entry = c, sent = [], saves = []\<rparr> = (st, b)"
  shows "requests (applyLanguage lang e p) = sent st"
    and "status (applyLanguage lang e p) = Translation_unavailable \<longleftrightarrow> \<not> b"
    and "\<not> b \<Longrightarrow> page_after (applyLanguage lang e p) =
           p\<lparr>text_nodes := capture_nodes (collectTextNodes (text_nodes p)) (text_nodes p),
             elements := capture_attrs (collectTranslatableAttributes (elements p)) (elements p)\<rparr>"
  using assms by (simp_all add: applyLanguage_def Let_def split: option.splits)

lemma applyLanguage_no_requests:
  "\<not> body p \<Longrightarrow> requests (applyLanguage lang e p) = []"
  "normalize_lang lang = js ''en'' \<Longrightarrow> requests (applyLanguage lang e p) = []"
  "language_cache (normalize_lang lang) (loadCache (localStorage e)) = Inl err \<Longrightarrow>
     requests (applyLanguage lang e p) = []"
  by (cases err; simp add: applyLanguage_def Let_def)+

lemma requests_cases:
  assumes "r \<in> set (requests (applyLanguage lang e p))"
  obtains ps c st b where "body p" "normalize_lang lang \<noteq> js ''en''"
    "language_cache (normalize_lang lang) (loadCache (localStorage e)) = Inr (ps, c)"
    "chunk_loop (server e) (normalize_lang lang) (missing c p) 0
           \<lparr>top = ps, entry = c, sent = [], saves = []\<rparr> = (st, b)"
proof (cases "language_cache (normalize_lang lang) (loadCache (localStorage e))")
  case (Inl err)
  with assms applyLanguage_no_requests(3)[where lang=lang and e=e and p=p and err=err] show ?thesis by simp
next
  case (Inr pc)
  obtain ps c where pc: "pc = (ps, c)" by (cases pc)
  obtain st b where "chunk_loop (server e) (normalize_lang lang) (missing c p) 0
           \<lparr>top = ps, entry = c, sent = [], saves = []\<rparr> = (st, b)"
    by (cases "chunk_loop (server e) (normalize_lang lang) (missing c p) 0
           \<lparr>top = ps, entry = c, sent = [], saves = []\<rparr>")
  moreover have "body p"
    by (rule ccontr) (use assms in \<open>simp add: applyLanguage_no_requests(1)\<close>)
  moreover have "normalize_lang lang \<noteq> js ''en''"
    by (rule notI) (use assms in \<open>simp add: applyLanguage_no_requests(2)\<close>)
  ultimately show ?thesis using that Inr pc by blast
qed

subsection \<open>The examples, evaluated\<close>

lemma js_simps: "js [] = []" "js (c # s) = of_char c # js s"
  by (simp_all add: js_def)

lemmas json_defs = JSON_parse_def is_json_ws_def punctuation_def is_digit_def is_lower_def
  is_number_char_def literal_def cons_token_def escape_def quoted_def obj_set_def

lemma loadCache_empty: "loadCache empty_storage = Obj []"
  by (simp add: loadCache_def empty_storage_def or_braces_def json_defs js_simps)

lemma loadCache_cached:
  "loadCache cached_storage = Obj [(js ''hi'', Obj [(js ''Hello'', Str (js ''Namaste''))])]"
  by (simp add: loadCache_def cached_storage_def or_braces_def json_defs js_simps)

lemma normalize_hi: "normalize_lang (js ''hi'') = js ''hi''"
  by (simp add: normalize_lang_def obj_get_def LANGS_def js_simps)

lemma normalize_en: "normalize_lang (js ''en'') = js ''en''"
  by (simp add: normalize_lang_def obj_get_def LANGS_def js_simps)

lemma hi_not_en: "js ''hi'' \<noteq> js ''en''"
  by (simp add: js_simps)

lemma language_cache_empty:
  "language_cache (js ''hi'') (Obj []) = Inr ([(js ''hi'', Obj [])], [])"
  by (simp add: language_cache_def obj_get_def obj_set_def Object_prototype_def js_simps)

lemma language_cache_cached:
  "language_cache (js ''hi'') (Obj [(js ''hi'', Obj [(js ''Hello'', Str (js ''Namaste''))])])
   = Inr ([(js ''hi'', Obj [(js ''Hello'', Str (js ''Namaste''))])],
          [(js ''Hello'', Str (js ''Namaste''))])"
  by (simp add: language_cache_def obj_get_def)

lemma example_nodes: "collectTextNodes (text_nodes example_page) = [0]"
  by (simp add: collectTextNodes_def example_page_def isTranslatableTextNode_def trim_def
      is_white_space_def js_simps)

lemma example_items:
  "collectTranslatableAttributes (elements example_page) = [(0, Placeholder, js ''Name'')]"
  by (simp add: collectTranslatableAttributes_def element_items_def example_page_def trim_def
      is_white_space_def js_simps)

lemma example_uniqueTexts: "uniqueTexts example_page = [js ''Hello'', js ''Name'']"
  by (simp add: uniqueTexts_def nodeTexts_def attrTexts_def example_nodes example_items Set_from_def)
     (simp add: example_page_def trim_def is_white_space_def js_simps)

lemma example_missing: "missing [] example_page = [js ''Hello'', js ''Name'']"
  by (simp add: missing_def example_uniqueTexts obj_get_def Object_prototype_def js_simps)

lemma example_missing_cached:
  "missing [(js ''Hello'', Str (js ''Namaste''))] example_page = [js ''Name'']"
  by (simp add: missing_def example_uniqueTexts obj_get_def Object_prototype_def js_simps)

lemma example_failing_loop:
  "chunk_loop failing_backend (js ''hi'') [js ''Hello'', js ''Name''] 0
     \<lparr>top = ps, entry = c, sent = [], saves = []\<rparr>
   = (\<lparr>top = ps, entry = c, sent = [(js ''hi'', [js ''Hello'', js ''Name''])], saves = []\<rparr>, False)"
  by (simp add: chunk_loop.simps[of _ _ _ 0] CHUNK_def failing_backend_def translateBatch_def)

lemma example_loop:
  "chunk_loop example_backend (js ''hi'') [js ''Hello'', js ''Name''] 0
     \<lparr>top = [(js ''hi'', Obj [])], entry = [], sent = [], saves = []\<rparr>
   = (\<lparr>top = [(js ''hi'', Obj [(js ''Hello'', Str (js ''hi:Hello'')),
                                 (js ''Name'', Str (js ''hi:Name''))])],
       entry = [(js ''Hello'', Str (js ''hi:Hello'')), (js ''Name'', Str (js ''hi:Name''))],
       sent = [(js ''hi'', [js ''Hello'', js ''Name''])],
       saves = [Obj [(js ''hi'', Obj [(js ''Hello'', Str (js ''hi:Hello'')),
                                      (js ''Name'', Str (js ''hi:Name''))])]]\<rparr>,
      True)"
  by (simp add: chunk_loop.simps[of _ _ _ 0] chunk_loop.simps[of _ _ _ 80] CHUNK_def Let_def
      example_backend_def translateBatch_def obj_get_def store_chunk_def translated_or_def
      obj_set_def js_simps upt_rec)

lemma example_cached_loop:
  "chunk_loop example_backend (js ''hi'') [js ''Name''] 0
     \<lparr>top = ps, entry = c, sent = [], saves = []\<rparr>
   = (st, b) \<Longrightarrow> sent st = [(js ''hi'', [js ''Name''])]"
  by (auto simp: chunk_loop.simps[of _ _ _ 0] chunk_loop.simps[of _ _ _ 80] CHUNK_def Let_def
      example_backend_def translateBatch_def obj_get_def js_simps)

lemma example_requests_cached:
  "requests (applyLanguage (js ''hi'') \<lparr>localStorage = cached_storage, server = example_backend\<rparr>
      example_page) = [(js ''hi'', [js ''Name''])]"
proof -
  let ?e = "\<lparr>localStorage = cached_storage, server = example_backend\<rparr>"
  obtain st b where run: "chunk_loop (server ?e) (normalize_lang (js ''hi''))
        (missing [(js ''Hello'', Str (js ''Namaste''))] example_page) 0
        \<lparr>top = [(js ''hi'', Obj [(js ''Hello'', Str (js ''Namaste''))])],
         entry = [(js ''Hello'', Str (js ''Namaste''))], sent = [], saves = []\<rparr> = (st, b)"
    by (cases "chunk_loop (server ?e) (normalize_lang (js ''hi''))
        (missing [(js ''Hello'', Str (js ''Namaste''))] example_page) 0
        \<lparr>top = [(js ''hi'', Obj [(js ''Hello'', Str (js ''Namaste''))])],
         entry = [(js ''Hello'', Str (js ''Namaste''))], sent = [], saves = []\<rparr>")
  then have "sent st = [(js ''hi'', [js ''Name''])]"
    by (simp add: normalize_hi example_missing_cached example_cached_loop)
  moreover have "requests (applyLanguage (js ''hi'') ?e example_page) = sent st"
    by (rule applyLanguage_loop(1)[OF _ _ _ run])
       (simp_all add: example_page_def normalize_hi hi_not_en loadCache_cached language_cache_cached)
  ultimately show ?thesis by simp
qed

lemma example_failing:
  "requests (applyLanguage (js ''hi'') \<lparr>localStorage = empty_storage, server = failing_backend\<rparr>
      example_page) = [(js ''hi'', [js ''Hello'', js ''Name''])]"
proof -
  let ?e = "\<lparr>localStorage = empty_storage, server = failing_backend\<rparr>"
  have run: "chunk_loop (server ?e) (normalize_lang (js ''hi'')) (missing [] example_page) 0
        \<lparr>top = [(js ''hi'', Obj [])], entry = [], sent = [], saves = []\<rparr>
      = (\<lparr>top = [(js ''hi'', Obj [])], entry = [],
           sent = [(js ''hi'', [js ''Hello'', js ''Name''])], saves = []\<rparr>, False)"
    by (simp add: normalize_hi example_missing example_failing_loop)
  have "requests (applyLanguage (js ''hi'') ?e example_page)
        = sent \<lparr>top = [(js ''hi'', Obj [])], entry = [],
                 sent = [(js ''hi'', [js ''Hello'', js ''Name''])], saves = []\<rparr>"
    by (rule applyLanguage_loop(1)[OF _ _ _ run])
       (simp_all add: example_page_def normalize_hi hi_not_en loadCache_empty language_cache_empty)
  then show ?thesis by simp
qed

lemma applyLanguage_completed:
  assumes "body p" and "normalize_lang lang \<noteq> js ''en''"
    and "language_cache (normalize_lang lang) (loadCache (localStorage e)) = Inr (ps, c)"
    and "chunk_loop (server e) (normalize_lang lang) (missing c p) 0
           \<lparr>top = ps, entry = c, sent = [], saves = []\<rparr> = (st, True)"
    and "apply_nodes (entry st) (collectTextNodes (text_nodes p))
           (capture_nodes (collectTextNodes (text_nodes p)) (text_nodes p)) = Some ns"
    and "apply_attrs (entry st) (collectTranslatableAttributes (elements p))
           (capture_attrs (collectTranslatableAttributes (elements p)) (elements p)) = Some els"
  shows "applyLanguage lang e p =
           \<lparr>page_after = p\<lparr>text_nodes := ns, elements := els\<rparr>,
            requests = sent st, saved = saves st, status = Returned\<rparr>"
  using assms by (simp add: applyLanguage_def Let_def)

lemma applyLanguage_english:
  assumes "body p" and "normalize_lang lang = js ''en''"
  shows "applyLanguage lang e p =
           \<lparr>page_after = p\<lparr>text_nodes := restore_nodes (text_nodes p),
                            elements := restore_attrs (elements p)\<rparr>,
            requests = [], saved = [], status = Returned\<rparr>"
  using assms by (simp add: applyLanguage_def Let_def)

lemma example_translated:
  "applyLanguage (js ''hi'') \<lparr>localStorage = empty_storage, server = example_backend\<rparr> example_page
   = \<lparr>page_after = translated_page,
      requests = [(js ''hi'', [js ''Hello'', js ''Name''])],
      saved = [Obj [(js ''hi'', Obj [(js ''Hello'', Str (js ''hi:Hello'')),
                                     (js ''Name'', Str (js ''hi:Name''))])]],
      status = Returned\<rparr>"
proof -
  let ?e = "\<lparr>localStorage = empty_storage, server = example_backend\<rparr>"
  let ?st = "\<lparr>top = [(js ''hi'', Obj [(js ''Hello'', Str (js ''hi:Hello'')),
                                         (js ''Name'', Str (js ''hi:Name''))])],
       entry = [(js ''Hello'', Str (js ''hi:Hello'')), (js ''Name'', Str (js ''hi:Name''))],
       sent = [(js ''hi'', [js ''Hello'', js ''Name''])],
       saves = [Obj [(js ''hi'', Obj [(js ''Hello'', Str (js ''hi:Hello'')),
                                      (js ''Name'', Str (js ''hi:Name''))])]]\<rparr>"
  have run: "chunk_loop (server ?e) (normalize_lang (js ''hi'')) (missing [] example_page) 0
        \<lparr>top = [(js ''hi'', Obj [])], entry = [], sent = [], saves = []\<rparr> = (?st, True)"
    by (simp add: normalize_hi example_missing example_loop)
  have nodes: "apply_nodes (entry ?st) (collectTextNodes (text_nodes example_page))
           (capture_nodes (collectTextNodes (text_nodes example_page)) (text_nodes example_page))
        = Some (text_nodes translated_page)"
    by (simp add: example_nodes)
       (simp add: example_page_def translated_page_def capture_nodes_def capture_node_def
          apply_node_def original_or_value_def or_string_def obj_get_def trim_def
          is_white_space_def js_simps)
  have attrs: "apply_attrs (entry ?st) (collectTranslatableAttributes (elements example_page))
           (capture_attrs (collectTranslatableAttributes (elements example_page))
              (elements example_page))
        = Some (elements translated_page)"
    by (simp add: example_items)
       (simp add: example_page_def translated_page_def capture_attrs_def capture_attr_def
          apply_attr_def or_string_def obj_get_def Let_def js_simps)
  have "applyLanguage (js ''hi'') ?e example_page =
           \<lparr>page_after = example_page\<lparr>text_nodes := text_nodes translated_page,
                                        elements := elements translated_page\<rparr>,
            requests = sent ?st, saved = saves ?st, status = Returned\<rparr>"
    by (rule applyLanguage_completed[OF _ _ _ run nodes attrs])
       (simp_all add: example_page_def normalize_hi hi_not_en loadCache_empty language_cache_empty)
  then show ?thesis
    by (simp add: example_page_def translated_page_def)
qed

lemma example_restored:
  "text_nodes (page_after (applyLanguage (js ''en'') e translated_page))
     = [\<lparr>nodeValue = js '' Hello '', parentElement = True, in_no_translate = False,
         tagName = js ''P'', originalText = Some (js '' Hello '')\<rparr>]"
  "elements (page_after (applyLanguage (js ''en'') e translated_page))
     = [\<lparr>el_in_no_translate = False,
         attributes = [Placeholder \<mapsto> js ''Name''],
         originalAttrs = Some [Placeholder \<mapsto> js ''Name'']\<rparr>]"
proof -
  have en: "applyLanguage (js ''en'') e translated_page =
           \<lparr>page_after = translated_page\<lparr>text_nodes := restore_nodes (text_nodes translated_page),
                            elements := restore_attrs (elements translated_page)\<rparr>,
            requests = [], saved = [], status = Returned\<rparr>"
    by (rule applyLanguage_english) (simp_all add: translated_page_def normalize_en)
  show "text_nodes (page_after (applyLanguage (js ''en'') e translated_page))
     = [\<lparr>nodeValue = js '' Hello '', parentElement = True, in_no_translate = False,
         tagName = js ''P'', originalText = Some (js '' Hello '')\<rparr>]"
    by (simp add: en)
       (simp add: translated_page_def restore_nodes_def collectTextNodes_def restore_node_def
          isTranslatableTextNode_def trim_def is_white_space_def js_simps)
  show "elements (page_after (applyLanguage (js ''en'') e translated_page))
     = [\<lparr>el_in_no_translate = False,
         attributes = [Placeholder \<mapsto> js ''Name''],
         originalAttrs = Some [Placeholder \<mapsto> js ''Name'']\<rparr>]"
    by (simp add: en)
       (simp add: translated_page_def restore_attrs_def collectTranslatableAttributes_def
          element_items_def restore_attr_def trim_def is_white_space_def js_simps)
qed

subsection \<open>What is asked of the backend\<close>

text \<open>
  C3. For a language whose cache entry \<open>cache[lang]\<close> is read as the object \<open>c\<close>, a
  string \<open>t\<close> that has a cached translation that is not empty is in the texts of no
  request to \<open>/translate\<close> that the call sends: the requests carry only strings whose
  lookup \<open>cache[lang][t]\<close> is falsy, which for a cache of strings is a string that is
  absent or has the empty translation.
\<close>

theorem cached_strings_not_requested:
  assumes "language_cache (normalize_lang lang) (loadCache (localStorage e)) = Inr (ps, c)"
    and "(l, texts) \<in> set (requests (applyLanguage lang e p))"
  shows "(\<forall>t s. map_of c t = Some (Str s) \<and> s \<noteq> [] \<longrightarrow> t \<notin> set texts)
         \<and> (\<forall>t\<in>set texts. \<not> truthy (obj_get c t))"
proof -
  from assms(2) obtain ps' c' st b where run: "body p" "normalize_lang lang \<noteq> js ''en''"
    "language_cache (normalize_lang lang) (loadCache (localStorage e)) = Inr (ps', c')"
    "chunk_loop (server e) (normalize_lang lang) (missing c' p) 0
           \<lparr>top = ps', entry = c', sent = [], saves = []\<rparr> = (st, b)"
    by (rule requests_cases)
  with assms(1) have same: "ps' = ps" "c' = c" by simp_all
  from chunk_loop_sent[OF run(4)] obtain n where
    "sent st = map (\<lambda>k. (normalize_lang lang, take CHUNK (drop (0 + k * CHUNK) (missing c' p)))) [0..<n]"
    by auto
  moreover have "requests (applyLanguage lang e p) = sent st"
    using applyLanguage_loop(1)[OF run] .
  ultimately have "(l, texts) \<in> (\<lambda>k. (normalize_lang lang, take CHUNK (drop (0 + k * CHUNK) (missing c' p)))) ` {0..<n}"
    using assms(2) by simp
  then have "set texts \<subseteq> set (missing c p)"
    using same by (auto dest!: in_set_takeD in_set_dropD)
  then have falsy: "\<forall>t\<in>set texts. \<not> truthy (obj_get c t)"
    by (auto simp: missing_falsy)
  moreover have "t \<notin> set texts" if "map_of c t = Some (Str s)" "s \<noteq> []" for t s
  proof
    assume "t \<in> set texts"
    with falsy have "\<not> truthy (obj_get c t)" by blast
    with that show False by (simp add: obj_get_def)
  qed
  ultimately show ?thesis by blast
qed

theorem cached_strings_not_requested_witness:
  "language_cache (normalize_lang (js ''hi''))
     (loadCache (localStorage \<lparr>localStorage = cached_storage, server = example_backend\<rparr>))
     = Inr ([(js ''hi'', Obj [(js ''Hello'', Str (js ''Namaste''))])],
            [(js ''Hello'', Str (js ''Namaste''))])
   \<and> (js ''hi'', [js ''Name''])
       \<in> set (requests (applyLanguage (js ''hi'')
                  \<lparr>localStorage = cached_storage, server = example_backend\<rparr> example_page))
   \<and> map_of [(js ''Hello'', Str (js ''Namaste''))] (js ''Hello'') = Some (Str (js ''Namaste''))
   \<and> js ''Namaste'' \<noteq> []
   \<and> js ''Hello'' \<notin> set [js ''Name'']
   \<and> js ''Name'' \<in> set [js ''Name'']
   \<and> \<not> truthy (obj_get [(js ''Hello'', Str (js ''Namaste''))] (js ''Name''))"
proof -
  let ?e = "\<lparr>localStorage = cached_storage, server = example_backend\<rparr>"
  have h1: "language_cache (normalize_lang (js ''hi'')) (loadCache (localStorage ?e))
     = Inr ([(js ''hi'', Obj [(js ''Hello'', Str (js ''Namaste''))])],
            [(js ''Hello'', Str (js ''Namaste''))])"
    by (simp add: normalize_hi loadCache_cached language_cache_cached)
  have h2: "(js ''hi'', [js ''Name'']) \<in> set (requests (applyLanguage (js ''hi'') ?e example_page))"
    by (simp add: example_requests_cached)
  have h3: "map_of [(js ''Hello'', Str (js ''Namaste''))] (js ''Hello'') = Some (Str (js ''Namaste''))"
    and h4: "js ''Namaste'' \<noteq> []"
    and h5: "js ''Name'' \<in> set [js ''Name'']"
    by (simp_all add: js_simps)
  from cached_strings_not_requested[OF h1 h2] h1 h2 h3 h4 h5 show ?thesis
    by blast
qed

subsection \<open>A translation that fails\<close>

text \<open>When \<open>translateBatch\<close> throws: on a rejected fetch, on a status that is not 2xx, and on a
  body whose \<open>translations\<close> is not an array.\<close>

lemma translateBatch_throws:
  "\<exists>err. translateBatch Fetch_rejected = Inl err"
  "\<not> ok \<Longrightarrow> \<exists>err. translateBatch (Response ok json) = Inl err"
  "\<forall>ps ts. json = Some (Obj ps) \<longrightarrow> obj_get ps (js ''translations'') \<noteq> Arr ts \<Longrightarrow>
     \<exists>err. translateBatch (Response ok json) = Inl err"
  by (auto simp: translateBatch_def Let_def obj_get_def split: option.splits jsval.splits)

lemma translateBatch_returns:
  "translateBatch r = Inr ts \<longleftrightarrow>
     (\<exists>ps. r = Response True (Some (Obj ps)) \<and> obj_get ps (js ''translations'') = Arr ts)"
proof -
  have "obj_get [] k \<noteq> Arr ts" for k
    by (simp add: obj_get_def)
  then show ?thesis
    by (auto simp: translateBatch_def Let_def split: reply.splits option.splits jsval.splits)
qed

text \<open>
  C4. If the reply to any request to \<open>/translate\<close> that a call sends makes
  \<open>translateBatch\<close> throw, the call returns from its \<open>catch\<close>, before the translations
  are written: every text node and every attribute has the value it had before the call.
\<close>

theorem failed_translation_leaves_text:
  assumes "(l, texts) \<in> set (requests (applyLanguage lang e p))"
    and "translateBatch (server e l texts) = Inl err"
  shows "status (applyLanguage lang e p) = Translation_unavailable
         \<and> map nodeValue (text_nodes (page_after (applyLanguage lang e p))) = map nodeValue (text_nodes p)
         \<and> map attributes (elements (page_after (applyLanguage lang e p))) = map attributes (elements p)"
proof -
  from assms(1) obtain ps c st b where run: "body p" "normalize_lang lang \<noteq> js ''en''"
    "language_cache (normalize_lang lang) (loadCache (localStorage e)) = Inr (ps, c)"
    "chunk_loop (server e) (normalize_lang lang) (missing c p) 0
           \<lparr>top = ps, entry = c, sent = [], saves = []\<rparr> = (st, b)"
    by (rule requests_cases)
  have sent: "requests (applyLanguage lang e p) = sent st"
    using applyLanguage_loop(1)[OF run] .
  have "\<not> b"
  proof
    assume b
    with run(4) have "\<forall>(l, ts)\<in>set (sent st). \<exists>tr. translateBatch (server e l ts) = Inr tr"
      using chunk_loop_all_translated[of "server e" "normalize_lang lang" "missing c p" 0 _ st]
      by simp
    with assms sent show False by auto
  qed
  then show ?thesis
    using applyLanguage_loop(2,3)[OF run]
    by (simp add: capture_keeps_text capture_keeps_attributes)
qed

theorem failed_translation_leaves_text_witness:
  "(js ''hi'', [js ''Hello'', js ''Name''])
     \<in> set (requests (applyLanguage (js ''hi'')
                \<lparr>localStorage = empty_storage, server = failing_backend\<rparr> example_page))
   \<and> translateBatch (server \<lparr>localStorage = empty_storage, server = failing_backend\<rparr>
         (js ''hi'') [js ''Hello'', js ''Name'']) = Inl Translation_failed
   \<and> status (applyLanguage (js ''hi'')
         \<lparr>localStorage = empty_storage, server = failing_backend\<rparr> example_page)
       = Translation_unavailable
   \<and> map nodeValue (text_nodes (page_after (applyLanguage (js ''hi'')
         \<lparr>localStorage = empty_storage, server = failing_backend\<rparr> example_page)))
       = map nodeValue (text_nodes example_page)
   \<and> map attributes (elements (page_after (applyLanguage (js ''hi'')
         \<lparr>localStorage = empty_storage, server = failing_backend\<rparr> example_page)))
       = map attributes (elements example_page)"
proof -
  let ?e = "\<lparr>localStorage = empty_storage, server = failing_backend\<rparr>"
  have h1: "(js ''hi'', [js ''Hello'', js ''Name''])
     \<in> set (requests (applyLanguage (js ''hi'') ?e example_page))"
    by (simp add: example_failing)
  have h2: "translateBatch (server ?e (js ''hi'') [js ''Hello'', js ''Name'']) = Inl Translation_failed"
    by (simp add: failing_backend_def translateBatch_def)
  from failed_translation_leaves_text[OF h1 h2] h1 h2 show ?thesis
    by blast
qed

subsection \<open>The size of the requests\<close>

lemma concat_slices: "concat (map (\<lambda>k. take c (drop (k * c) xs)) [0..<n]) = take (n * c) xs"
proof (induction n)
  case 0
  show ?case by simp
next
  case (Suc n)
  have "concat (map (\<lambda>k. take c (drop (k * c) xs)) [0..<Suc n])
        = take (n * c) xs @ take c (drop (n * c) xs)"
    using Suc by simp
  also have "\<dots> = take (n * c + c) xs"
    by (rule take_add[symmetric])
  also have "n * c + c = Suc n * c"
    by simp
  finally show ?case .
qed

text \<open>
  C5. The requests of a call for a language other than English carry consecutive slices
  of 80 of the missing strings: request number \<open>k\<close> carries the strings from position
  \<open>80 * k\<close> on, at most 80 and at least one of them, and unless a translation failed the
  requests together carry the whole list.
\<close>

theorem requests_in_slices_of_80:
  assumes "language_cache (normalize_lang lang) (loadCache (localStorage e)) = Inr (ps, c)"
    and "body p" and "normalize_lang lang \<noteq> js ''en''"
  shows "(\<forall>k<length (requests (applyLanguage lang e p)).
            requests (applyLanguage lang e p) ! k
              = (normalize_lang lang, take 80 (drop (80 * k) (missing c p)))
            \<and> length (snd (requests (applyLanguage lang e p) ! k)) \<le> 80
            \<and> 80 * k < length (missing c p))
         \<and> (status (applyLanguage lang e p) \<noteq> Translation_unavailable \<longrightarrow>
              concat (map snd (requests (applyLanguage lang e p))) = missing c p)"
proof -
  obtain st b where run: "chunk_loop (server e) (normalize_lang lang) (missing c p) 0
           \<lparr>top = ps, entry = c, sent = [], saves = []\<rparr> = (st, b)"
    by (cases "chunk_loop (server e) (normalize_lang lang) (missing c p) 0
           \<lparr>top = ps, entry = c, sent = [], saves = []\<rparr>")
  from chunk_loop_sent[OF run] obtain n where n:
    "sent st = map (\<lambda>k. (normalize_lang lang, take CHUNK (drop (k * CHUNK) (missing c p)))) [0..<n]"
    "\<forall>k<n. k * CHUNK < length (missing c p)" "b \<longrightarrow> length (missing c p) \<le> n * CHUNK"
    by auto
  have req: "requests (applyLanguage lang e p) = sent st"
    and st: "status (applyLanguage lang e p) = Translation_unavailable \<longleftrightarrow> \<not> b"
    using applyLanguage_loop(1,2)[OF assms(2,3,1) run] by simp_all
  have first: "\<forall>k<length (requests (applyLanguage lang e p)).
            requests (applyLanguage lang e p) ! k
              = (normalize_lang lang, take 80 (drop (80 * k) (missing c p)))
            \<and> length (snd (requests (applyLanguage lang e p) ! k)) \<le> 80
            \<and> 80 * k < length (missing c p)"
    using n(1,2) by (simp add: req CHUNK_def mult.commute)
  have "concat (map snd (sent st)) = take (n * CHUNK) (missing c p)"
    by (simp add: n(1) comp_def concat_slices)
  then have "b \<longrightarrow> concat (map snd (requests (applyLanguage lang e p))) = missing c p"
    using n(3) by (simp add: req)
  with first st show ?thesis by blast
qed

theorem requests_in_slices_of_80_witness:
  "language_cache (normalize_lang (js ''hi''))
     (loadCache (localStorage \<lparr>localStorage = empty_storage, server = example_backend\<rparr>))
     = Inr ([(js ''hi'', Obj [])], [])
   \<and> body example_page
   \<and> normalize_lang (js ''hi'') \<noteq> js ''en''
   \<and> 0 < length (requests (applyLanguage (js ''hi'')
             \<lparr>localStorage = empty_storage, server = example_backend\<rparr> example_page))
   \<and> requests (applyLanguage (js ''hi'')
         \<lparr>localStorage = empty_storage, server = example_backend\<rparr> example_page) ! 0
       = (normalize_lang (js ''hi''), take 80 (drop (80 * 0) (missing [] example_page)))
   \<and> status (applyLanguage (js ''hi'')
         \<lparr>localStorage = empty_storage, server = example_backend\<rparr> example_page)
       \<noteq> Translation_unavailable
   \<and> concat (map snd (requests (applyLanguage (js ''hi'')
         \<lparr>localStorage = empty_storage, server = example_backend\<rparr> example_page)))
       = missing [] example_page"
proof -
  let ?e = "\<lparr>localStorage = empty_storage, server = example_backend\<rparr>"
  have h1: "language_cache (normalize_lang (js ''hi'')) (loadCache (localStorage ?e))
     = Inr ([(js ''hi'', Obj [])], [])"
    by (simp add: normalize_hi loadCache_empty language_cache_empty)
  have h2: "body example_page"
    by (simp add: example_page_def)
  have h3: "normalize_lang (js ''hi'') \<noteq> js ''en''"
    by (simp add: normalize_hi hi_not_en)
  have h4: "0 < length (requests (applyLanguage (js ''hi'') ?e example_page))"
    by (simp add: example_translated)
  have h5: "status (applyLanguage (js ''hi'') ?e example_page) \<noteq> Translation_unavailable"
    by (simp add: example_translated)
  from requests_in_slices_of_80[OF h1 h2 h3] h1 h2 h3 h4 h5 show ?thesis
    by blast
qed

subsection \<open>What is stored in the cache\<close>

lemma obj_get_obj_set: "obj_get (obj_set c k v) k' = (if k' = k then v else obj_get c k')"
  by (simp add: obj_get_def obj_set_def update_conv')

lemma store_fold_get:
  assumes "distinct (map ((!) chunk) idxs)" and "j \<in> set idxs"
  shows "obj_get (fold (\<lambda>j c. obj_set c (chunk ! j) (F j)) idxs c) (chunk ! j) = F j"
  using assms
proof (induction idxs rule: rev_induct)
  case Nil
  then show ?case by simp
next
  case (snoc x idxs)
  show ?case
  proof (cases "j = x")
    case True
    then show ?thesis by (simp add: obj_get_obj_set)
  next
    case False
    with snoc.prems have j: "j \<in> set idxs"
      by simp
    from snoc.prems have d: "distinct (map ((!) chunk) idxs)"
      and nin: "chunk ! x \<notin> (!) chunk ` set idxs"
      by simp_all
    from nin j have "chunk ! j \<noteq> chunk ! x"
      by (metis image_eqI)
    with snoc.IH[OF d j] show ?thesis by (simp add: obj_get_obj_set)
  qed
qed

text \<open>
  The strings the loop assigns to are own properties of the cache entry or are not
  inherited, which is where \<open>obj_set\<close> is the assignment of JavaScript.
\<close>

lemma missing_assignable:
  assumes "t \<in> set (missing c p)"
  shows "t \<in> fst ` set c \<or> t \<notin> set Object_prototype"
proof (cases "map_of c t")
  case None
  with assms show ?thesis
    by (auto simp: missing_def obj_get_def split: if_splits)
next
  case (Some v)
  then have "(t, v) \<in> set c" by (rule map_of_SomeD)
  then have "t \<in> fst ` set c" by force
  then show ?thesis ..
qed

text \<open>
  C6. After the inner loop has stored the array \<open>translated\<close> for a chunk of the missing
  strings, the cache entry of the string at position \<open>j\<close> of the chunk is the element at
  position \<open>j\<close> of \<open>translated\<close>, and the string itself when that element is missing
  or falsy, as the empty string is.
\<close>

theorem cache_entry_follows_position:
  assumes "chunk = take CHUNK (drop i (missing c p))" and "j < length chunk"
  shows "obj_get (store_chunk c' chunk translated) (chunk ! j)
         = (if j < length translated \<and> truthy (translated ! j) then translated ! j
            else Str (chunk ! j))"
proof -
  have "distinct chunk"
    using assms(1) by (simp add: distinct_missing)
  then have "distinct (map ((!) chunk) [0..<length chunk])"
    by (simp add: map_nth)
  from store_fold_get[OF this, of j "translated_or translated chunk" c'] assms(2)
  show ?thesis by (simp add: store_chunk_def translated_or_def)
qed

theorem cache_entry_follows_position_witness:
  "[js ''Hello'', js ''Name''] = take CHUNK (drop 0 (missing [] example_page))
   \<and> 0 < length [js ''Hello'', js ''Name'']
   \<and> 1 < length [js ''Hello'', js ''Name'']
   \<and> obj_get (store_chunk [] [js ''Hello'', js ''Name''] [Str (js ''Namaste'')]) (js ''Hello'')
       = Str (js ''Namaste'')
   \<and> obj_get (store_chunk [] [js ''Hello'', js ''Name''] [Str (js ''Namaste'')]) (js ''Name'')
       = Str (js ''Name'')"
proof -
  have h1: "[js ''Hello'', js ''Name''] = take CHUNK (drop 0 (missing [] example_page))"
    by (simp add: example_missing CHUNK_def)
  have h2: "0 < length [js ''Hello'', js ''Name'']" and h3: "1 < length [js ''Hello'', js ''Name'']"
    by simp_all
  from cache_entry_follows_position[OF h1 h2, of "[]" "[Str (js ''Namaste'')]"]
  have g1: "obj_get (store_chunk [] [js ''Hello'', js ''Name''] [Str (js ''Namaste'')]) (js ''Hello'')
       = Str (js ''Namaste'')"
    by (simp add: js_simps)
  from cache_entry_follows_position[OF h1 h3, of "[]" "[Str (js ''Namaste'')]"]
  have g2: "obj_get (store_chunk [] [js ''Hello'', js ''Name''] [Str (js ''Namaste'')]) (js ''Name'')
       = Str (js ''Name'')"
    by simp
  from h1 h2 h3 g1 g2 show ?thesis
    by blast
qed

subsection \<open>The stored originals\<close>

lemma node_keeps_refl: "node_keeps x x"
  by (simp add: node_keeps_def)

lemma node_keeps_trans: "node_keeps x y \<Longrightarrow> node_keeps y z \<Longrightarrow> node_keeps x z"
  by (simp add: node_keeps_def)

lemma element_keeps_refl: "element_keeps x x"
  by (simp add: element_keeps_def)

lemma element_keeps_trans: "element_keeps x y \<Longrightarrow> element_keeps y z \<Longrightarrow> element_keeps x z"
  unfolding element_keeps_def by blast

lemma page_keeps_refl: "page_keeps p p"
  by (simp add: page_keeps_def node_keeps_refl element_keeps_refl)

lemma page_keeps_trans: "page_keeps p q \<Longrightarrow> page_keeps q r \<Longrightarrow> page_keeps p r"
  unfolding page_keeps_def
  by (auto intro: node_keeps_trans element_keeps_trans)

lemma capture_node_keeps: "node_keeps x (capture_node x)"
  by (auto simp: node_keeps_def capture_node_def)

lemma restore_node_keeps: "node_keeps x (restore_node x)"
  by (auto simp: node_keeps_def restore_node_def split: option.splits)

lemma apply_node_keeps: "apply_node c x = Some y \<Longrightarrow> node_keeps x y"
  by (auto simp: node_keeps_def apply_node_def Let_def split: if_splits)

lemma capture_attr_keeps: "element_keeps x (capture_attr a val x)"
  by (auto simp: element_keeps_def capture_attr_def Let_def)

lemma restore_attr_keeps: "element_keeps x (restore_attr a x)"
  by (auto simp: element_keeps_def restore_attr_def split: option.splits)

lemma apply_attr_keeps: "apply_attr c a val x = Some y \<Longrightarrow> element_keeps x y"
  by (auto simp: element_keeps_def apply_attr_def)

lemma restore_page_keeps:
  "page_keeps p (p\<lparr>text_nodes := restore_nodes (text_nodes p), elements := restore_attrs (elements p)\<rparr>)"
  using restore_nodes_related[where R = node_keeps and ns = "text_nodes p",
      OF node_keeps_refl node_keeps_trans restore_node_keeps]
    restore_attrs_related[where R = element_keeps and els = "elements p",
      OF element_keeps_refl element_keeps_trans restore_attr_keeps]
  by (simp add: page_keeps_def)

lemma capture_page_keeps:
  "page_keeps p (p\<lparr>text_nodes := capture_nodes nodes (text_nodes p),
                   elements := capture_attrs items (elements p)\<rparr>)"
  using capture_nodes_related[where R = node_keeps and ns = "text_nodes p" and nodes = nodes,
      OF node_keeps_refl node_keeps_trans capture_node_keeps]
    capture_attrs_related[where R = element_keeps and els = "elements p" and items = items,
      OF element_keeps_refl element_keeps_trans capture_attr_keeps]
  by (simp add: page_keeps_def)

lemma apply_page_keeps:
  assumes "apply_nodes c nodes (text_nodes p) = Some ns"
    and "apply_attrs c items (elements p) = Some els"
  shows "page_keeps p (p\<lparr>text_nodes := ns, elements := els\<rparr>)"
  using apply_nodes_related[where R = node_keeps, OF node_keeps_refl node_keeps_trans apply_node_keeps assms(1)]
    apply_attrs_related[where R = element_keeps, OF element_keeps_refl element_keeps_trans apply_attr_keeps assms(2)]
  by (simp add: page_keeps_def)

lemma applyLanguage_keeps: "page_keeps p (page_after (applyLanguage lang e p))"
proof -
  let ?p1 = "p\<lparr>text_nodes := capture_nodes (collectTextNodes (text_nodes p)) (text_nodes p),
               elements := capture_attrs (collectTranslatableAttributes (elements p)) (elements p)\<rparr>"
  have p1: "page_keeps p ?p1" by (rule capture_page_keeps)
  have after: "page_keeps p (?p1\<lparr>text_nodes := ns, elements := els\<rparr>)"
    if "apply_nodes c (collectTextNodes (text_nodes p)) (text_nodes ?p1) = Some ns"
      and "apply_attrs c (collectTranslatableAttributes (elements p)) (elements ?p1) = Some els"
    for c ns els
    using page_keeps_trans[OF p1 apply_page_keeps[OF that]] .
  show ?thesis
    unfolding applyLanguage_def Let_def
    using p1 after
    by (auto simp: page_keeps_refl restore_page_keeps split: sum.splits error.splits prod.splits option.splits)
qed

lemma apply_languages_keeps: "page_keeps p (apply_languages calls p)"
proof (induction calls arbitrary: p)
  case Nil
  show ?case by (simp add: page_keeps_refl)
next
  case (Cons call calls)
  obtain lang e where "call = (lang, e)" by (cases call)
  with Cons.IH[of "page_after (applyLanguage lang e p)"] applyLanguage_keeps[of p lang e]
  show ?case by (auto intro: page_keeps_trans)
qed

text \<open>
  C9. The original stored for a text node, and the one stored for an attribute of an
  element, is never overwritten: whatever calls of \<open>applyLanguage\<close> follow, for whatever
  languages, with whatever storage and backend, it is still the stored original, so
  it is what the branch for English writes back.
\<close>

theorem originals_written_once:
  "length (text_nodes (apply_languages calls p)) = length (text_nodes p)
   \<and> length (elements (apply_languages calls p)) = length (elements p)
   \<and> (\<forall>i s. i < length (text_nodes p) \<and> originalText (text_nodes p ! i) = Some s \<longrightarrow>
         originalText (text_nodes (apply_languages calls p) ! i) = Some s)
   \<and> (\<forall>i oa a s. i < length (elements p) \<and> originalAttrs (elements p ! i) = Some oa \<and> oa a = Some s \<longrightarrow>
         (\<exists>oa'. originalAttrs (elements (apply_languages calls p) ! i) = Some oa' \<and> oa' a = Some s))"
  using apply_languages_keeps[of p calls]
  unfolding page_keeps_def node_keeps_def element_keeps_def
  by blast

theorem originals_written_once_witness:
  "0 < length (text_nodes translated_page)
   \<and> originalText (text_nodes translated_page ! 0) = Some (js '' Hello '')
   \<and> originalText (text_nodes (apply_languages
         [(js ''te'', \<lparr>localStorage = empty_storage, server = example_backend\<rparr>),
          (js ''en'', \<lparr>localStorage = empty_storage, server = failing_backend\<rparr>)]
         translated_page) ! 0) = Some (js '' Hello '')
   \<and> 0 < length (elements translated_page)
   \<and> originalAttrs (elements translated_page ! 0) = Some [Placeholder \<mapsto> js ''Name'']
   \<and> [Placeholder \<mapsto> js ''Name''] Placeholder = Some (js ''Name'')
   \<and> (\<exists>oa'. originalAttrs (elements (apply_languages
         [(js ''te'', \<lparr>localStorage = empty_storage, server = example_backend\<rparr>),
          (js ''en'', \<lparr>localStorage = empty_storage, server = failing_backend\<rparr>)]
         translated_page) ! 0) = Some oa' \<and> oa' Placeholder = Some (js ''Name''))"
proof -
  let ?calls = "[(js ''te'', \<lparr>localStorage = empty_storage, server = example_backend\<rparr>),
          (js ''en'', \<lparr>localStorage = empty_storage, server = failing_backend\<rparr>)]"
  have h1: "0 < length (text_nodes translated_page)"
    and h2: "originalText (text_nodes translated_page ! 0) = Some (js '' Hello '')"
    and h3: "0 < length (elements translated_page)"
    and h4: "originalAttrs (elements translated_page ! 0) = Some [Placeholder \<mapsto> js ''Name'']"
    by (simp_all add: translated_page_def)
  have h5: "[Placeholder \<mapsto> js ''Name''] Placeholder = Some (js ''Name'')"
    by simp
  from originals_written_once[of ?calls translated_page] h1 h2 h3 h4 h5 show ?thesis
    by blast
qed

subsection \<open>Restoring the English page\<close>

text \<open>
  The branch for English writes back what the WeakMaps hold. For a text node that is
  the \<open>nodeValue\<close> it had, as it was; for an attribute it is the trimmed value of the
  item, since \<open>collectTranslatableAttributes\<close> stores \<open>val.trim()\<close> in the item and
  \<open>applyLanguage\<close> keeps that as the original.
\<close>

lemma capture_attr_stores_trimmed:
  "originalAttrs el = None \<Longrightarrow> attributes el a = Some val \<Longrightarrow> val \<noteq> [] \<Longrightarrow> trim val \<noteq> [] \<Longrightarrow>
   \<not> el_in_no_translate el \<Longrightarrow>
   (i, a, trim val) \<in> set (element_items i el)
   \<and> originalAttrs (capture_attr a (trim val) el) = Some [a \<mapsto> trim val]"
  by (cases a) (simp_all add: element_items_def capture_attr_def)

lemma fold_update_nth:
  "distinct idxs \<Longrightarrow>
   fold (\<lambda>i xs. xs[i := F (xs ! i)]) idxs xs ! k
     = (if k \<in> set idxs \<and> k < length xs then F (xs ! k) else xs ! k)"
proof (induction idxs arbitrary: xs)
  case Nil
  show ?case by simp
next
  case (Cons i idxs)
  from Cons.prems have "i \<notin> set idxs" "distinct idxs" by simp_all
  with Cons.IH[of "xs[i := F (xs ! i)]"] show ?case
    by (cases "k = i") (auto simp: list_update_beyond)
qed

lemma restore_nodes_exact:
  assumes "i < length ns" and "isTranslatableTextNode (ns ! i)"
    and "originalText (ns ! i) = Some orig"
  shows "nodeValue (restore_nodes ns ! i) = orig"
proof -
  have "distinct (collectTextNodes ns)" "i \<in> set (collectTextNodes ns)"
    using assms(1,2) by (simp_all add: collectTextNodes_def)
  with assms(1,3) fold_update_nth[of "collectTextNodes ns" restore_node ns i] show ?thesis
    by (simp add: restore_nodes_def restore_node_def)
qed

text \<open>A text node that the walker does not collect, as one whose text is blank, is left as it is.\<close>

lemma restore_skips_uncollected:
  assumes "i < length ns" and "\<not> isTranslatableTextNode (ns ! i)"
  shows "restore_nodes ns ! i = ns ! i"
proof -
  have "distinct (collectTextNodes ns)" "i \<notin> set (collectTextNodes ns)"
    using assms by (simp_all add: collectTextNodes_def)
  with fold_update_nth[of "collectTextNodes ns" restore_node ns i] show ?thesis
    by (simp add: restore_nodes_def)
qed

text \<open>
  C2. Claim: after any sequence of \<open>applyLanguage\<close> calls, \<open>applyLanguage('en')\<close> restores
  every translated text node and every translatable attribute to exactly the value it had
  before the first translation. On the example page, whose input field has the
  placeholder \<open>" Name "\<close>, a call for Hindi followed by a call for English leaves the
  placeholder \<open>"Name"\<close>: the text node comes back with its spaces, the attribute does not.
\<close>

theorem restore_trims_attribute:
  "attributes (elements example_page ! 0) Placeholder = Some (js '' Name '')
   \<and> attributes (elements (apply_languages
         [(js ''hi'', \<lparr>localStorage = empty_storage, server = example_backend\<rparr>)]
         example_page) ! 0) Placeholder = Some (js ''hi:Name'')
   \<and> attributes (elements (apply_languages
         [(js ''hi'', \<lparr>localStorage = empty_storage, server = example_backend\<rparr>),
          (js ''en'', \<lparr>localStorage = empty_storage, server = example_backend\<rparr>)]
         example_page) ! 0) Placeholder = Some (js ''Name'')
   \<and> js ''Name'' \<noteq> js '' Name ''
   \<and> status (applyLanguage (js ''hi'')
         \<lparr>localStorage = empty_storage, server = example_backend\<rparr> example_page) = Returned
   \<and> nodeValue (text_nodes example_page ! 0) = js '' Hello ''
   \<and> nodeValue (text_nodes (apply_languages
         [(js ''hi'', \<lparr>localStorage = empty_storage, server = example_backend\<rparr>),
          (js ''en'', \<lparr>localStorage = empty_storage, server = example_backend\<rparr>)]
         example_page) ! 0) = js '' Hello ''"
  by (simp add: example_translated example_restored)
     (simp add: example_page_def translated_page_def js_simps)

subsection \<open>The selected language and the stored cache\<close>

lemma obj_get_LANGS_cases:
  "truthy (obj_get LANGS v) \<longleftrightarrow> v \<in> set supported \<or> v \<in> set Object_prototype"
proof (cases "map_of LANGS v")
  case None
  then have "v \<notin> set supported"
    by (simp add: supported_def map_of_eq_None_iff)
  with None show ?thesis by (simp add: obj_get_def)
next
  case (Some x)
  then have "(v, x) \<in> set LANGS" by (rule map_of_SomeD)
  then have "truthy x" "v \<in> set supported"
    by (auto simp: LANGS_def supported_def js_def)
  with Some show ?thesis by (simp add: obj_get_def)
qed

text \<open>
  What \<open>getLang\<close> returns: the trimmed stored value when it is a language code or the
  name of a property that \<open>LANGS\<close> inherits, and \<open>'en'\<close> otherwise.
\<close>

lemma getLang_value:
  "getLang ls =
     (if trim (or_en (acd_lang ls)) \<in> set supported
         \<or> trim (or_en (acd_lang ls)) \<in> set Object_prototype
      then trim (or_en (acd_lang ls)) else js ''en'')"
  by (simp add: getLang_def Let_def obj_get_LANGS_cases)

lemma normalize_lang_value:
  "normalize_lang lang =
     (if lang \<in> set supported \<or> lang \<in> set Object_prototype then lang else js ''en'')"
  by (simp add: normalize_lang_def obj_get_LANGS_cases)

text \<open>
  C8. Claim: \<open>getLang\<close> always returns a supported language code, the trimmed stored
  value if it is a key of \<open>LANGS\<close> and \<open>'en'\<close> otherwise, and \<open>setLang\<close> and
  \<open>applyLanguage\<close> normalise any unsupported code to \<open>'en'\<close>. With \<open>constructor\<close> stored
  under \<open>acd_lang\<close>, \<open>LANGS['constructor']\<close> is the inherited \<open>Object\<close> function, which is
  truthy: \<open>getLang\<close> returns \<open>constructor\<close>, which is no key of \<open>LANGS\<close>, and neither
  \<open>setLang\<close> nor the first line of \<open>applyLanguage\<close> replaces it.
\<close>

theorem getLang_inherited_key:
  "getLang \<lparr>acd_lang = Some (js ''constructor''), acd_lang_cache_v1 = None\<rparr> = js ''constructor''
   \<and> js ''constructor'' \<notin> set supported
   \<and> normalize_lang (js ''constructor'') = js ''constructor''
   \<and> acd_lang (setLang (js ''constructor'') \<lparr>acd_lang = None, acd_lang_cache_v1 = None\<rparr>)
       = Some (js ''constructor'')"
  by (simp add: getLang_def setLang_def normalize_lang_def or_en_def trim_def is_white_space_def
        obj_get_def LANGS_def supported_def Object_prototype_def js_def)

lemma JSON_parse_braces: "JSON_parse (js ''{}'') = Inr (Obj [])"
  by (simp add: json_defs js_simps)

text \<open>
  C10, as stated: for every stored value of \<open>acd_lang_cache_v1\<close>, \<open>loadCache\<close> returns an
  object. It does not for the stored texts \<open>null\<close> and \<open>true\<close>, which are valid JSON.
\<close>

theorem loadCache_not_object:
  "loadCache \<lparr>acd_lang = None, acd_lang_cache_v1 = Some (js ''null'')\<rparr> = Null
   \<and> \<not> is_object (loadCache \<lparr>acd_lang = None, acd_lang_cache_v1 = Some (js ''null'')\<rparr>)
   \<and> loadCache \<lparr>acd_lang = None, acd_lang_cache_v1 = Some (js ''true'')\<rparr> = Boolean True
   \<and> \<not> is_object (loadCache \<lparr>acd_lang = None, acd_lang_cache_v1 = Some (js ''true'')\<rparr>)"
  by (simp add: loadCache_def or_braces_def json_defs js_simps)

text \<open>With \<open>null\<close> stored, a call for a language other than English throws at line 133.\<close>

lemma applyLanguage_null_cache:
  assumes "body p" and "normalize_lang lang \<noteq> js ''en''"
    and "loadCache (localStorage e) = Null"
  shows "status (applyLanguage lang e p) = Threw_TypeError"
  using assms by (simp add: applyLanguage_def Let_def language_cache_def)

text \<open>
  C10, amended: \<open>loadCache\<close> never throws. It returns the empty object when the key is
  unset or empty and when the stored text is not valid JSON; otherwise it returns the
  value the stored text denotes, which is an object exactly when that value is one.
\<close>

theorem loadCache_total:
  "(acd_lang_cache_v1 ls = None \<or> acd_lang_cache_v1 ls = Some [] \<longrightarrow> loadCache ls = Obj [])
   \<and> (\<forall>s e. acd_lang_cache_v1 ls = Some s \<and> JSON_parse s = Inl e \<longrightarrow> loadCache ls = Obj [])
   \<and> (\<forall>s v. acd_lang_cache_v1 ls = Some s \<and> s \<noteq> [] \<and> JSON_parse s = Inr v \<longrightarrow> loadCache ls = v)
   \<and> (is_object (loadCache ls) \<longleftrightarrow>
        (case JSON_parse (or_braces (acd_lang_cache_v1 ls)) of
           Inl e \<Rightarrow> True
         | Inr v \<Rightarrow> is_object v))"
  by (auto simp: loadCache_def or_braces_def JSON_parse_braces split: sum.splits option.splits)

theorem loadCache_total_witness:
  "acd_lang_cache_v1 empty_storage = None
   \<and> loadCache empty_storage = Obj []
   \<and> acd_lang_cache_v1 broken_storage = Some (js ''{oops'')
   \<and> JSON_parse (js ''{oops'') = Inl SyntaxError
   \<and> loadCache broken_storage = Obj []
   \<and> acd_lang_cache_v1 cached_storage
       = Some (js ''{'' @ quoted (js ''hi'') @ js '':{'' @ quoted (js ''Hello'') @ js '':''
               @ quoted (js ''Namaste'') @ js ''}}'')
   \<and> js ''{'' @ quoted (js ''hi'') @ js '':{'' @ quoted (js ''Hello'') @ js '':''
       @ quoted (js ''Namaste'') @ js ''}}'' \<noteq> []
   \<and> JSON_parse (js ''{'' @ quoted (js ''hi'') @ js '':{'' @ quoted (js ''Hello'') @ js '':''
                   @ quoted (js ''Namaste'') @ js ''}}'')
       = Inr (Obj [(js ''hi'', Obj [(js ''Hello'', Str (js ''Namaste''))])])
   \<and> loadCache cached_storage = Obj [(js ''hi'', Obj [(js ''Hello'', Str (js ''Namaste''))])]"
proof -
  have h1: "acd_lang_cache_v1 empty_storage = None"
    by (simp add: empty_storage_def)
  have h2: "acd_lang_cache_v1 broken_storage = Some (js ''{oops'')"
    by (simp add: broken_storage_def)
  have h3: "JSON_parse (js ''{oops'') = Inl SyntaxError"
    by (simp add: json_defs js_simps)
  have h4: "acd_lang_cache_v1 cached_storage
       = Some (js ''{'' @ quoted (js ''hi'') @ js '':{'' @ quoted (js ''Hello'') @ js '':''
               @ quoted (js ''Namaste'') @ js ''}}'')"
    by (simp add: cached_storage_def)
  have h5: "js ''{'' @ quoted (js ''hi'') @ js '':{'' @ quoted (js ''Hello'') @ js '':''
       @ quoted (js ''Namaste'') @ js ''}}'' \<noteq> []"
    by (simp add: js_simps)
  have h6: "JSON_parse (js ''{'' @ quoted (js ''hi'') @ js '':{'' @ quoted (js ''Hello'') @ js '':''
                   @ quoted (js ''Namaste'') @ js ''}}'')
       = Inr (Obj [(js ''hi'', Obj [(js ''Hello'', Str (js ''Namaste''))])])"
    by (simp add: json_defs js_simps)
  from loadCache_total[of empty_storage] loadCache_total[of broken_storage]
    loadCache_total[of cached_storage] h1 h2 h3 h4 h5 h6
  show ?thesis
    by blast
qed

section \<open>Properties of the emergency form\<close>

lemma fileSizeMB_over_2: "fileSizeMB f > 2 \<longleftrightarrow> file_size f > 2097152"
  by (auto simp: fileSizeMB_def field_simps)

text \<open>
  C1. Whenever a file is selected and its size exceeds 2 MB (\<open>size / 1024 / 1024 > 2\<close>),
  the submit handler shows the alert and returns without the request to \<open>/emergency\<close>;
  the request is sent only when no file is selected or the selected file is at most 2 MB.
\<close>

theorem oversize_image_never_submitted:
  "(files = Some fs \<and> fs \<noteq> [] \<and> real (file_size (fs ! 0)) / 1024 / 1024 > 2 \<longrightarrow>
      submit_handler files reply p
        = (p, [PreventDefault, Alert (js ''Image size must be less than 2 MB'')])
      \<and> Fetch_emergency \<notin> set (snd (submit_handler files reply p)))
   \<and> (Fetch_emergency \<in> set (snd (submit_handler files reply p)) \<longrightarrow>
        files = None
        \<or> (\<exists>fs. files = Some fs \<and> (fs = [] \<or> real (file_size (fs ! 0)) / 1024 / 1024 \<le> 2)))"
  by (cases files)
     (auto simp: submit_handler_def fileSizeMB_def Let_def split: prod.splits)

theorem oversize_image_never_submitted_witness:
  "Some [\<lparr>file_size = 3000000\<rparr>] = Some [\<lparr>file_size = 3000000\<rparr>]
   \<and> [\<lparr>file_size = 3000000\<rparr>] \<noteq> []
   \<and> real (file_size ([\<lparr>file_size = 3000000\<rparr>] ! 0)) / 1024 / 1024 > 2
   \<and> submit_handler (Some [\<lparr>file_size = 3000000\<rparr>]) (Responded True None) example_emergency_page
       = (example_emergency_page, [PreventDefault, Alert (js ''Image size must be less than 2 MB'')])
   \<and> Fetch_emergency \<in> set (snd (submit_handler (Some [\<lparr>file_size = 1000\<rparr>]) (Responded True None)
                                    example_emergency_page))
   \<and> real (file_size ([\<lparr>file_size = 1000\<rparr>] ! 0)) / 1024 / 1024 \<le> 2"
proof -
  have h1: "[\<lparr>file_size = 3000000\<rparr>] \<noteq> []"
    by simp
  have h2: "real (file_size ([\<lparr>file_size = 3000000\<rparr>] ! 0)) / 1024 / 1024 > 2"
    by simp
  have h3: "Fetch_emergency \<in> set (snd (submit_handler (Some [\<lparr>file_size = 1000\<rparr>])
                                           (Responded True None) example_emergency_page))"
    by (simp add: submit_handler_def fileSizeMB_def Let_def)
  from oversize_image_never_submitted[of "Some [\<lparr>file_size = 3000000\<rparr>]" "[\<lparr>file_size = 3000000\<rparr>]"
      "Responded True None" example_emergency_page]
    oversize_image_never_submitted[of "Some [\<lparr>file_size = 1000\<rparr>]" "[\<lparr>file_size = 1000\<rparr>]"
      "Responded True None" example_emergency_page] h1 h2 h3
  show ?thesis
    by auto
qed

section \<open>Properties of auth.js\<close>

text \<open>
  C7. Whenever the sign-in popup rejects with an error, \<open>signInWithGoogle\<close> shows an alert
  whose text contains the error's message (it is \<open>Login failed: \<close> followed by the
  message), and the page is otherwise unchanged: no transition to the main content.
\<close>

theorem rejected_popup_alerts:
  assumes "auth p" and "googleProvider p"
  shows "signInWithGoogle type_error_message (Popup_rejected message) p
           = (p, [Console_error, Alert (js ''Login failed: '' @ message)])
         \<and> (\<exists>text pre. Alert text \<in> set (snd (signInWithGoogle type_error_message
                                                  (Popup_rejected message) p))
                         \<and> text = pre @ message)
         \<and> fst (signInWithGoogle type_error_message (Popup_rejected message) p) = p"
  using assms by (simp add: signInWithGoogle_def)

theorem rejected_popup_alerts_witness:
  "auth example_auth_page \<and> googleProvider example_auth_page
   \<and> signInWithGoogle [] (Popup_rejected (js ''The popup has been closed'')) example_auth_page
       = (example_auth_page,
          [Console_error, Alert (js ''Login failed: '' @ js ''The popup has been closed'')])
   \<and> mainContent_hidden (fst (signInWithGoogle [] (Popup_rejected (js ''The popup has been closed''))
                                 example_auth_page)) = Some True"
proof -
  have h1: "auth example_auth_page" and h2: "googleProvider example_auth_page"
    by (simp_all add: example_auth_page_def)
  from rejected_popup_alerts[OF h1 h2, of "[]" "js ''The popup has been closed''"] h1 h2
  show ?thesis
    by (simp add: example_auth_page_def)
qed

end
